theory Spec2Isabelle
  imports Main
begin

section \<open>JavaScript strings\<close>

text \<open>
  A JavaScript string is modelled as a \<^typ>\<open>string\<close>: a list of 8-bit characters, that
  is, the code units below 256 (ASCII and Latin-1).  On these \<open>toLowerCase\<close> maps every
  code unit to one code unit, so indices into a string and into its lower-cased copy agree.
  Beyond them this is not so (the capital I with a dot, code unit 0x130, becomes two code
  units), and an index found in the lower-cased copy can be off in the string itself: texts
  with code units from 256 on are outside the model.
  An argument that may be \<open>undefined\<close> or \<open>null\<close> is a \<^typ>\<open>string option\<close>.
  Numbers are integers: a digit string is read exactly, as JavaScript does below \<open>2 ^ 53\<close>;
  a longer digit string is rounded there, and is read exactly here.
\<close>

definition startsWith :: "string \<Rightarrow> string \<Rightarrow> bool" where
  "startsWith s p = (take (length p) s = p)"

fun str_includes :: "string \<Rightarrow> string \<Rightarrow> bool" where
  "str_includes [] w = (w = [])"
| "str_includes (c # cs) w = (startsWith (c # cs) w \<or> str_includes cs w)"

text \<open>\<open>s.indexOf(w)\<close>: the first index at which \<open>w\<close> starts, and \<open>-1\<close> when there is none.\<close>

fun indexOf :: "string \<Rightarrow> string \<Rightarrow> int" where
  "indexOf [] w = (if w = [] then 0 else -1)"
| "indexOf (c # cs) w =
     (if startsWith (c # cs) w then 0
      else (let i = indexOf cs w in if i < 0 then -1 else i + 1))"

text \<open>\<open>s.substring(k)\<close>: a negative start counts as 0, one beyond the end as the end.\<close>

definition substring :: "string \<Rightarrow> int \<Rightarrow> string" where
  "substring s k = drop (nat k) s"

text \<open>
  White space (\<open>\s\<close> of a regular expression, and what \<open>trim\<close> removes) among the code
  units below 256: TAB, LF, VT, FF, CR, SPACE and NO-BREAK SPACE.
\<close>

definition isSpace :: "char \<Rightarrow> bool" where
  "isSpace c = (c \<in> set [CHR 0x09, CHR 0x0A, CHR 0x0B, CHR 0x0C, CHR 0x0D, CHR 0x20, CHR 0xA0])"

definition isDigit :: "char \<Rightarrow> bool" where
  "isDigit c = (c \<in> set ''0123456789'')"

definition isWordChar :: "char \<Rightarrow> bool" where
  "isWordChar c =
     (c \<in> set ''abcdefghijklmnopqrstuvwxyzABCDEFGHIJKLMNOPQRSTUVWXYZ0123456789_'')"

definition trim :: "string \<Rightarrow> string" where
  "trim s = rev (dropWhile isSpace (rev (dropWhile isSpace s)))"

text \<open>
  \<open>toLowerCase\<close> on code units below 256: the letters A to Z, and the Latin-1 capitals
  (0xC0 to 0xDE without the multiplication sign 0xD7), move up by 32.
\<close>

definition upperLatin1 :: "char list" where
  "upperLatin1 =
     [CHR 0xC0, CHR 0xC1, CHR 0xC2, CHR 0xC3, CHR 0xC4, CHR 0xC5, CHR 0xC6, CHR 0xC7,
      CHR 0xC8, CHR 0xC9, CHR 0xCA, CHR 0xCB, CHR 0xCC, CHR 0xCD, CHR 0xCE, CHR 0xCF,
      CHR 0xD0, CHR 0xD1, CHR 0xD2, CHR 0xD3, CHR 0xD4, CHR 0xD5, CHR 0xD6, CHR 0xD8,
      CHR 0xD9, CHR 0xDA, CHR 0xDB, CHR 0xDC, CHR 0xDD, CHR 0xDE]"

definition lowerChar :: "char \<Rightarrow> char" where
  "lowerChar c =
     (if c \<in> set ''ABCDEFGHIJKLMNOPQRSTUVWXYZ'' \<or> c \<in> set upperLatin1
      then char_of (of_char c + (32 :: nat)) else c)"

definition toLowerCase :: "string \<Rightarrow> string" where
  "toLowerCase s = map lowerChar s"

text \<open>
  \<open>parseInt\<close> of a string of decimal digits: the number the digits denote (exact; the
  number of JavaScript is the same below \<open>2 ^ 53\<close>).
\<close>

definition digitValue :: "char \<Rightarrow> nat" where
  "digitValue c = of_char c - 48"

definition parseInt :: "string \<Rightarrow> nat" where
  "parseInt ds = foldl (\<lambda>a c. 10 * a + digitValue c) 0 ds"

subsection \<open>Regular expressions\<close>

text \<open>
  The regular expressions of the parser are written out as matchers.  A matcher takes the
  text from some position on and returns what a match starting there captures and the text
  after the match; alternatives and optional parts are tried in the order in which a
  backtracking matcher tries them.  A greedy run of white space or of digits is taken
  whole: in each pattern the run is followed by something that cannot begin with a
  character of the run, so giving characters back never turns a failure into a match.

  A literal under the flag \<open>i\<close>: the pattern is given in lower case, and a character of
  the text matches a letter of the pattern when it is that letter in either case.
\<close>

fun lit :: "string \<Rightarrow> string \<Rightarrow> string option" where
  "lit [] s = Some s"
| "lit (p # ps) [] = None"
| "lit (p # ps) (c # cs) = (if lowerChar c = p then lit ps cs else None)"

text \<open>
  The leftmost match: the matcher is tried at every position from the left; the result is
  the text before the match and what the matcher returns there.
\<close>

fun searchFrom :: "(string \<Rightarrow> 'a option) \<Rightarrow> string \<Rightarrow> (string \<times> 'a) option" where
  "searchFrom m [] = (case m [] of Some r \<Rightarrow> Some ([], r) | None \<Rightarrow> None)"
| "searchFrom m (c # cs) =
     (case m (c # cs) of
        Some r \<Rightarrow> Some ([], r)
      | None \<Rightarrow> (case searchFrom m cs of Some (pre, r) \<Rightarrow> Some (c # pre, r) | None \<Rightarrow> None))"

text \<open>\<open>\b\<close> right after a word character: the text ends, or goes on with a non-word character.\<close>

definition atBoundary :: "string \<Rightarrow> bool" where
  "atBoundary r = (case r of [] \<Rightarrow> True | c # _ \<Rightarrow> \<not> isWordChar c)"

text \<open>\<open>.replace(/\s+/g, ' ')\<close>: every maximal run of white space becomes one space.\<close>

fun collapseFrom :: "bool \<Rightarrow> string \<Rightarrow> string" where
  "collapseFrom inRun [] = []"
| "collapseFrom inRun (c # cs) =
     (if isSpace c then (if inRun then collapseFrom True cs else CHR '' '' # collapseFrom True cs)
      else c # collapseFrom False cs)"

definition collapseSpaces :: "string \<Rightarrow> string" where
  "collapseSpaces s = collapseFrom False s"

section \<open>Admin store (src/utils/admin.js)\<close>

definition CREATOR_JID :: string where
  "CREATOR_JID = ''8801316655254@s.whatsapp.net''"

text \<open>
  The content of \<open>data/admins.json\<close>: text that \<open>JSON.parse\<close> rejects, a JSON value
  without an array under \<open>admins\<close>, or a document \<open>{admins: [...]}\<close>.  The entries of the
  array are taken to be strings, which is all this module ever writes.
\<close>

datatype doc = Garbage | NoAdminsArray | AdminsDoc "string list"

text \<open>
  The file system as the module sees it: the file (\<open>None\<close> when it does not exist) and
  whether the environment lets \<open>fs.mkdir\<close>, \<open>fs.readFile\<close> and \<open>fs.writeFile\<close> succeed.
  \<open>fs.access\<close> succeeds exactly when the file exists.  \<open>fs.writeFile\<close> writes in place: it
  opens the file, which creates or empties it, and then writes the text.  So a write that
  fails may fail at the open and leave the file alone, or fail later and leave a file that
  is empty or cut short; \<open>write_truncates\<close> tells which of the two a failing write does.
\<close>

record fs =
  admins_file :: "doc option"
  mkdir_ok :: bool
  read_ok :: bool
  write_ok :: bool
  write_truncates :: bool

datatype io_error = WriteFailed

record admin_result =
  success :: bool
  result_message :: string

text \<open>
  \<open>fs.writeFile(ADMINS_FILE, JSON.stringify(data, null, 2))\<close>: whether it succeeded, and the
  file system after it.  An empty or cut-short text is one that \<open>JSON.parse\<close> rejects.
\<close>

definition writeFile :: "fs \<Rightarrow> doc \<Rightarrow> bool \<times> fs" where
  "writeFile s d =
     (if write_ok s then (True, s\<lparr>admins_file := Some d\<rparr>)
      else (False, if write_truncates s then s\<lparr>admins_file := Some Garbage\<rparr> else s))"

definition ensureAdminsFile :: "fs \<Rightarrow> fs" where
  "ensureAdminsFile s =
     (if \<not> mkdir_ok s then s
      else case admins_file s of
             Some _ \<Rightarrow> s
           | None \<Rightarrow> snd (writeFile s (AdminsDoc [])))"

definition readAdminsFromFile :: "fs \<Rightarrow> string list \<times> fs" where
  "readAdminsFromFile s =
     (let s1 = ensureAdminsFile s in
      (if \<not> read_ok s1 then []
       else case admins_file s1 of
              None \<Rightarrow> []
            | Some Garbage \<Rightarrow> []
            | Some NoAdminsArray \<Rightarrow> []
            | Some (AdminsDoc admins) \<Rightarrow> admins,
       s1))"

text \<open>The error of a failed write is thrown on to the caller; the file system is what the write left.\<close>

definition writeAdminsToFile :: "fs \<Rightarrow> string list \<Rightarrow> (io_error + unit) \<times> fs" where
  "writeAdminsToFile s admins =
     (case writeFile s (AdminsDoc admins) of
        (ok, s1) \<Rightarrow> (if ok then (Inr (), s1) else (Inl WriteFailed, s1)))"

definition isCreator :: "string option \<Rightarrow> bool" where
  "isCreator jid = (jid = Some CREATOR_JID)"

text \<open>\<open>!jid\<close>: \<open>undefined\<close>, \<open>null\<close> and the empty string are falsy.\<close>

definition falsy :: "string option \<Rightarrow> bool" where
  "falsy jid = (case jid of None \<Rightarrow> True | Some j \<Rightarrow> j = [])"

definition isAdmin :: "fs \<Rightarrow> string option \<Rightarrow> bool \<times> fs" where
  "isAdmin s jid =
     (if falsy jid then (False, s)
      else if isCreator jid then (True, s)
      else (let (admins, s1) = readAdminsFromFile s in (the jid \<in> set admins, s1)))"

definition invalidJid :: "string option \<Rightarrow> bool" where
  "invalidJid targetJid =
     (falsy targetJid \<or> \<not> str_includes (the targetJid) ''@s.whatsapp.net'')"

definition promoteAdmin :: "fs \<Rightarrow> string option \<Rightarrow> string option \<Rightarrow> admin_result \<times> fs" where
  "promoteAdmin s promoterJid targetJid =
     (if \<not> isCreator promoterJid then
        (\<lparr>success = False, result_message = ''Only the creator can promote admins''\<rparr>, s)
      else if invalidJid targetJid then
        (\<lparr>success = False, result_message = ''Invalid JID format''\<rparr>, s)
      else if isCreator targetJid then
        (\<lparr>success = False, result_message = ''Creator is already admin''\<rparr>, s)
      else
        (let (admins, s1) = readAdminsFromFile s in
         if the targetJid \<in> set admins then
           (\<lparr>success = False, result_message = ''User is already an admin''\<rparr>, s1)
         else
           (case writeAdminsToFile s1 (admins @ [the targetJid]) of
              (Inl e, s2) \<Rightarrow>
                (\<lparr>success = False, result_message = ''Failed to promote user''\<rparr>, s2)
            | (Inr u, s2) \<Rightarrow>
                (\<lparr>success = True, result_message = ''User promoted to admin successfully''\<rparr>, s2))))"

definition demoteAdmin :: "fs \<Rightarrow> string option \<Rightarrow> string option \<Rightarrow> admin_result \<times> fs" where
  "demoteAdmin s demoterJid targetJid =
     (if \<not> isCreator demoterJid then
        (\<lparr>success = False, result_message = ''Only the creator can demote admins''\<rparr>, s)
      else if invalidJid targetJid then
        (\<lparr>success = False, result_message = ''Invalid JID format''\<rparr>, s)
      else if isCreator targetJid then
        (\<lparr>success = False, result_message = ''Cannot demote the creator''\<rparr>, s)
      else
        (let (admins, s1) = readAdminsFromFile s in
         if the targetJid \<notin> set admins then
           (\<lparr>success = False, result_message = ''User is not an admin''\<rparr>, s1)
         else
           (case writeAdminsToFile s1 (filter (\<lambda>jid. jid \<noteq> the targetJid) admins) of
              (Inl e, s2) \<Rightarrow>
                (\<lparr>success = False, result_message = ''Failed to demote user''\<rparr>, s2)
            | (Inr u, s2) \<Rightarrow>
                (\<lparr>success = True, result_message = ''User demoted from admin successfully''\<rparr>, s2))))"

definition getAdminList :: "fs \<Rightarrow> (string \<times> string list) \<times> fs" where
  "getAdminList s = (let (admins, s1) = readAdminsFromFile s in ((CREATOR_JID, admins), s1))"

text \<open>
  The admin list stored in the file, as a reader of the file gets it: the array of a
  well-formed, readable document, and the empty list when the file is missing, unreadable
  or malformed.
\<close>

definition storedAdmins :: "fs \<Rightarrow> string list" where
  "storedAdmins s =
     (case admins_file s of
        Some (AdminsDoc admins) \<Rightarrow> (if read_ok s then admins else [])
      | _ \<Rightarrow> [])"

text \<open>A file system with one stored admin, used in the examples.\<close>

definition fs0 :: fs where
  "fs0 = \<lparr>admins_file = Some (AdminsDoc [''8801712345678@s.whatsapp.net'']),
          mkdir_ok = True, read_ok = True, write_ok = True, write_truncates = False\<rparr>"

text \<open>The same file on a disk that is full: a write opens the file and then fails.\<close>

definition fsFull :: fs where
  "fsFull = \<lparr>admins_file = Some (AdminsDoc [''8801712345678@s.whatsapp.net'']),
             mkdir_ok = True, read_ok = True, write_ok = False, write_truncates = True\<rparr>"

section \<open>Connection manager (bot.js, the \<open>connection.update\<close> handler)\<close>

text \<open>
  JavaScript values, as far as the handler inspects them.  An object carries whether it is
  an instance of \<open>Boom\<close>, and its properties by name.
\<close>

datatype jsval =
  JUndefined | JNull | JBool bool | JNum int | JStr string | JObj bool "(string \<times> jsval) list"

text \<open>
  \<open>v?.name\<close>: \<open>undefined\<close> when \<open>v\<close> is \<open>undefined\<close> or \<open>null\<close>, and the property otherwise.
  A boolean, a number and a string have none of the properties read here (\<open>error\<close>,
  \<open>output\<close>, \<open>statusCode\<close>), so the access yields \<open>undefined\<close> for them too.
\<close>

definition optChain :: "jsval \<Rightarrow> string \<Rightarrow> jsval" where
  "optChain v name =
     (case v of
        JObj _ props \<Rightarrow> (case map_of props name of Some x \<Rightarrow> x | None \<Rightarrow> JUndefined)
      | _ \<Rightarrow> JUndefined)"

definition instanceofBoom :: "jsval \<Rightarrow> bool" where
  "instanceofBoom v = (case v of JObj b _ \<Rightarrow> b | _ \<Rightarrow> False)"

text \<open>The two status codes of the messaging library's \<open>DisconnectReason\<close> that are used.\<close>

definition DisconnectReason_loggedOut :: int where
  "DisconnectReason_loggedOut = 401"

definition DisconnectReason_connectionClosed :: int where
  "DisconnectReason_connectionClosed = 428"

definition MAX_RETRIES :: nat where
  "MAX_RETRIES = 5"

record bot =
  isConnected :: bool
  connectionRetries :: nat

text \<open>
  \<open>(lastDisconnect?.error instanceof Boom)?.output?.statusCode\<close>: the parentheses close
  around the \<open>instanceof\<close> test, so \<open>.output\<close> is read off a boolean.
\<close>

definition statusCodeOf :: "jsval \<Rightarrow> jsval" where
  "statusCodeOf lastDisconnect =
     optChain (optChain (JBool (instanceofBoom (optChain lastDisconnect ''error''))) ''output'')
       ''statusCode''"

definition shouldReconnect :: "jsval \<Rightarrow> bool" where
  "shouldReconnect lastDisconnect = (statusCodeOf lastDisconnect \<noteq> JNum DisconnectReason_loggedOut)"

text \<open>\<open>Math.min(1000 * Math.pow(2, connectionRetries), 30000)\<close>, in milliseconds.\<close>

definition delayTime :: "nat \<Rightarrow> nat" where
  "delayTime retries = min (1000 * 2 ^ retries) 30000"

datatype close_outcome = Reconnect nat | CannotReconnect | MaxRetriesReached

text \<open>
  The branch \<open>connection === 'close'\<close>: what the handler decides (reconnect after a delay,
  or one of the two messages of giving up) and the module state after it.
\<close>

definition onConnectionClose :: "bot \<Rightarrow> jsval \<Rightarrow> close_outcome \<times> bot" where
  "onConnectionClose b lastDisconnect =
     (let b1 = b\<lparr>isConnected := False\<rparr>;
          statusCode = statusCodeOf lastDisconnect;
          b2 = (if statusCode = JNum DisconnectReason_connectionClosed
                then b1\<lparr>connectionRetries := 0\<rparr> else b1)
      in if shouldReconnect lastDisconnect \<and> connectionRetries b2 < MAX_RETRIES then
           (let b3 = b2\<lparr>connectionRetries := connectionRetries b2 + 1\<rparr>
            in (Reconnect (delayTime (connectionRetries b3)), b3))
         else if \<not> shouldReconnect lastDisconnect then (CannotReconnect, b2)
         else (MaxRetriesReached, b2))"

text \<open>A run of close events with no successful connection in between, and its delays.\<close>

fun closeEvents :: "bot \<Rightarrow> jsval list \<Rightarrow> close_outcome list" where
  "closeEvents b [] = []"
| "closeEvents b (ld # lds) =
     (case onConnectionClose b ld of (out, b') \<Rightarrow> out # closeEvents b' lds)"

fun delays :: "close_outcome list \<Rightarrow> nat list" where
  "delays [] = []"
| "delays (Reconnect d # outs) = d # delays outs"
| "delays (CannotReconnect # outs) = delays outs"
| "delays (MaxRetriesReached # outs) = delays outs"

text \<open>A disconnect whose error is a \<open>Boom\<close> with the given status code.\<close>

definition boomDisconnect :: "int \<Rightarrow> jsval" where
  "boomDisconnect code =
     JObj False [(''error'', JObj True [(''output'', JObj False [(''statusCode'', JNum code)])])]"

definition bot0 :: bot where
  "bot0 = \<lparr>isConnected = True, connectionRetries = 0\<rparr>"

section \<open>Natural-time parser (bot.js, \<open>parseNaturalTime\<close>)\<close>

subsection \<open>Date and time\<close>



definition plusHours :: "int \<Rightarrow> nat \<Rightarrow> int" where
  "plusHours t n = t + int n * 3600000"

definition plusMinutes :: "int \<Rightarrow> nat \<Rightarrow> int" where
  "plusMinutes t n = t + int n * 60000"

definition plusDays :: "int \<Rightarrow> nat \<Rightarrow> int" where
  "plusDays t n = t + int n * 86400000"

definition zoneOffset :: int where
  "zoneOffset = 21600000"

definition setHourMinute :: "int \<Rightarrow> nat \<Rightarrow> nat \<Rightarrow> int" where
  "setHourMinute t h m =
     (t + zoneOffset) - (t + zoneOffset) mod 86400000 + int h * 3600000 + int m * 60000 - zoneOffset"

subsection \<open>The patterns\<close>

text \<open>Pattern 1: \<open>/in\s+(\d+)\s+(hour|hr|minute|min|h|m)(?:s?)\b/i\<close>.\<close>

definition unitAlts :: "string list" where
  "unitAlts = [''hour'', ''hr'', ''minute'', ''min'', ''h'', ''m'']"

text \<open>\<open>(?:s?)\b\<close>: first with the \<open>s\<close> taken, then without it.\<close>

definition unitTail :: "string \<Rightarrow> string option" where
  "unitTail r =
     (case (case r of
              c # r' \<Rightarrow> if lowerChar c = CHR ''s'' \<and> atBoundary r' then Some r' else None
            | [] \<Rightarrow> None) of
        Some r' \<Rightarrow> Some r'
      | None \<Rightarrow> if atBoundary r then Some r else None)"

fun firstUnit :: "string list \<Rightarrow> string \<Rightarrow> (string \<times> string) option" where
  "firstUnit [] s = None"
| "firstUnit (u # us) s =
     (case (case lit u s of Some r \<Rightarrow> unitTail r | None \<Rightarrow> None) of
        Some r' \<Rightarrow> Some (u, r')
      | None \<Rightarrow> firstUnit us s)"

text \<open>The result: the digits, the unit in lower case, and the text after the match.\<close>

definition inAt :: "string \<Rightarrow> (string \<times> string \<times> string) option" where
  "inAt s =
     (case lit ''in'' s of
        None \<Rightarrow> None
      | Some r1 \<Rightarrow>
          if takeWhile isSpace r1 = [] then None
          else (let r2 = dropWhile isSpace r1;
                    ds = takeWhile isDigit r2;
                    r3 = dropWhile isDigit r2
                in if ds = [] then None
                   else if takeWhile isSpace r3 = [] then None
                   else (case firstUnit unitAlts (dropWhile isSpace r3) of
                           None \<Rightarrow> None
                         | Some (u, r5) \<Rightarrow> Some (ds, u, r5))))"

text \<open>
  The time of day shared by the other patterns: \<open>(\d{1,2})(?::(\d{2}))?\s*(am|pm)?\<close>.
  Nothing after the first digit can fail, so each part takes the most it can.  The result:
  the hour digits, the minute digits if any, \<open>am\<close> or \<open>pm\<close> in lower case if any, and the
  text after the match.
\<close>

definition timeAt :: "string \<Rightarrow> (string \<times> string option \<times> string option \<times> string) option" where
  "timeAt s =
     (case s of
        [] \<Rightarrow> None
      | d1 # s1 \<Rightarrow>
          if \<not> isDigit d1 then None
          else (let (h, s2) = (case s1 of
                                 d2 # s1' \<Rightarrow> if isDigit d2 then ([d1, d2], s1') else ([d1], s1)
                               | [] \<Rightarrow> ([d1], s1));
                    (mi, s3) = (case s2 of
                                  c # m1 # m2 # s2' \<Rightarrow>
                                    if c = CHR '':'' \<and> isDigit m1 \<and> isDigit m2
                                    then (Some [m1, m2], s2') else (None, s2)
                                | _ \<Rightarrow> (None, s2));
                    s4 = dropWhile isSpace s3;
                    (ap, s5) = (case lit ''am'' s4 of
                                  Some r \<Rightarrow> (Some ''am'', r)
                                | None \<Rightarrow> (case lit ''pm'' s4 of
                                             Some r \<Rightarrow> (Some ''pm'', r)
                                           | None \<Rightarrow> (None, s4)))
                in Some (h, mi, ap, s5)))"

text \<open>\<open>(?:at\s+)\<close>.\<close>

definition atGroup :: "string \<Rightarrow> string option" where
  "atGroup r =
     (case lit ''at'' r of
        Some q \<Rightarrow> if takeWhile isSpace q = [] then None else Some (dropWhile isSpace q)
      | None \<Rightarrow> None)"

text \<open>\<open>\s+(?:at\s+)?\<close> and the time of day: first with the \<open>at\<close>, then without it.\<close>

definition afterHead :: "string \<Rightarrow> (string \<times> string option \<times> string option \<times> string) option" where
  "afterHead r1 =
     (if takeWhile isSpace r1 = [] then None
      else (let r2 = dropWhile isSpace r1
            in case (case atGroup r2 of Some r3 \<Rightarrow> timeAt r3 | None \<Rightarrow> None) of
                 Some t \<Rightarrow> Some t
               | None \<Rightarrow> timeAt r2))"

text \<open>Pattern 2: \<open>/tomorrow\s+(?:at\s+)?(\d{1,2})(?::(\d{2}))?\s*(am|pm)?/i\<close>.\<close>

definition tomorrowAt :: "string \<Rightarrow> (string \<times> string option \<times> string option \<times> string) option" where
  "tomorrowAt s = (case lit ''tomorrow'' s of Some r1 \<Rightarrow> afterHead r1 | None \<Rightarrow> None)"

text \<open>
  Pattern 3: \<open>/(?:daily|every\s+day)\s+(?:at\s+)?(\d{1,2})(?::(\d{2}))?\s*(am|pm)?/i\<close>.
\<close>

definition everyDay :: "string \<Rightarrow> string option" where
  "everyDay s =
     (case lit ''every'' s of
        Some q \<Rightarrow> if takeWhile isSpace q = [] then None else lit ''day'' (dropWhile isSpace q)
      | None \<Rightarrow> None)"

definition dailyAt :: "string \<Rightarrow> (string \<times> string option \<times> string option \<times> string) option" where
  "dailyAt s =
     (case (case lit ''daily'' s of Some r1 \<Rightarrow> afterHead r1 | None \<Rightarrow> None) of
        Some t \<Rightarrow> Some t
      | None \<Rightarrow> (case everyDay s of Some r1 \<Rightarrow> afterHead r1 | None \<Rightarrow> None))"

text \<open>\<open>.replace(/^(to|that|for)\s+/i, '')\<close>.\<close>

fun firstLead :: "string list \<Rightarrow> string \<Rightarrow> string option" where
  "firstLead [] s = None"
| "firstLead (w # ws) s =
     (case lit w s of
        Some r \<Rightarrow> if takeWhile isSpace r = [] then firstLead ws s else Some (dropWhile isSpace r)
      | None \<Rightarrow> firstLead ws s)"

definition stripLead :: "string \<Rightarrow> string" where
  "stripLead s = (case firstLead [''to'', ''that'', ''for''] s of Some r \<Rightarrow> r | None \<Rightarrow> s)"

text \<open>\<open>.replace(pattern, '').replace(/\s+/g, ' ').trim()\<close>, given the text around the match.\<close>

definition removeMatch :: "string \<Rightarrow> string \<Rightarrow> string" where
  "removeMatch pre rest = trim (collapseSpaces (pre @ rest))"

text \<open>The conversion to the 24-hour clock.\<close>

definition to24 :: "nat \<Rightarrow> string option \<Rightarrow> nat" where
  "to24 hours ampm =
     (let hours1 = (if ampm = Some ''pm'' \<and> hours < 12 then hours + 12 else hours)
      in if ampm = Some ''am'' \<and> hours1 = 12 then 0 else hours1)"

definition minutesOf :: "string option \<Rightarrow> nat" where
  "minutesOf mi = (case mi of Some ds \<Rightarrow> parseInt ds | None \<Rightarrow> 0)"

subsection \<open>The parser\<close>

definition triggerWords :: "string list" where
  "triggerWords = [''remind me'', ''reminder'', ''alarm'', ''alert me'']"

text \<open>The loop over the trigger words: the text after the first trigger word that occurs.\<close>

fun afterTrigger :: "string list \<Rightarrow> string \<Rightarrow> string" where
  "afterTrigger [] text = text"
| "afterTrigger (word # ws) text =
     (if str_includes (toLowerCase text) word
      then trim (substring text (indexOf (toLowerCase text) word + int (length word)))
      else afterTrigger ws text)"

text \<open>The message the patterns are matched against: trigger word and command prefix removed.\<close>

definition strippedMessage :: "string \<Rightarrow> string" where
  "strippedMessage text =
     (let message = afterTrigger triggerWords text
      in if startsWith message ''!addreminder'' \<or> startsWith message ''/addreminder''
         then trim (substring message (indexOf message '' '' + 1))
         else message)"

record parsed =
  dueAt :: "int option"
  message :: string

text \<open>
  The steps of \<open>parseNaturalTime\<close>, each taking and returning the local variables
  \<open>dueAt\<close> (\<open>None\<close> for \<open>null\<close>) and \<open>parsedMessage\<close>; \<open>msg\<close> is the variable \<open>message\<close>.  The clock is read as \<open>now\<close> where a
  due time is computed, and as \<open>later\<close> where a computed due time is compared with the
  current time again.
\<close>

definition inStep :: "int \<Rightarrow> string \<Rightarrow> int option \<times> string \<Rightarrow> int option \<times> string" where
  "inStep now msg v =
     (case searchFrom inAt msg of
        None \<Rightarrow> v
      | Some (pre, ds, unit, rest) \<Rightarrow>
          (let amount = parseInt ds;
               due = (if startsWith unit ''h'' then plusHours now amount
                        else if startsWith unit ''m'' then plusMinutes now amount
                        else now)
           in (Some due, trim (stripLead (removeMatch pre rest)))))"

definition tomorrowStep :: "int \<Rightarrow> string \<Rightarrow> int option \<times> string \<Rightarrow> int option \<times> string" where
  "tomorrowStep now msg v =
     (case searchFrom tomorrowAt msg of
        None \<Rightarrow> v
      | Some (pre, h, mi, ampm, rest) \<Rightarrow>
          if fst v \<noteq> None then v
          else (Some (setHourMinute (plusDays now 1) (to24 (parseInt h) ampm) (minutesOf mi)),
                trim (stripLead (removeMatch pre rest))))"

text \<open>A time of day that has passed when the clock is read again moves to the next day.\<close>

definition todayOrTomorrow :: "int \<Rightarrow> int \<Rightarrow> nat \<Rightarrow> nat \<Rightarrow> int" where
  "todayOrTomorrow now later h m =
     (let due = setHourMinute now h m in if due < later then plusDays due 1 else due)"

definition dailyStep :: "int \<Rightarrow> int \<Rightarrow> string \<Rightarrow> int option \<times> string \<Rightarrow> int option \<times> string" where
  "dailyStep now later msg v =
     (case searchFrom dailyAt msg of
        None \<Rightarrow> v
      | Some (pre, h, mi, ampm, rest) \<Rightarrow>
          if fst v \<noteq> None then v
          else (Some (todayOrTomorrow now later (to24 (parseInt h) ampm) (minutesOf mi)),
                ''Daily: '' @ removeMatch pre rest))"

definition timeStep :: "int \<Rightarrow> int \<Rightarrow> string \<Rightarrow> int option \<times> string \<Rightarrow> int option \<times> string" where
  "timeStep now later msg v =
     (if fst v \<noteq> None then v
      else (case searchFrom timeAt msg of
              None \<Rightarrow> v
            | Some (pre, h, mi, ampm, rest) \<Rightarrow>
                (Some (todayOrTomorrow now later (to24 (parseInt h) ampm) (minutesOf mi)),
                 removeMatch pre rest)))"

definition defaultStep :: "int \<Rightarrow> string \<Rightarrow> int option \<times> string \<Rightarrow> int option \<times> string" where
  "defaultStep now msg v = (if fst v = None then (Some (plusHours now 1), msg) else v)"

text \<open>
  The function returns an object in every case; the result is an option because its
  documentation and its callers allow for \<open>null\<close>.
\<close>

definition parseNaturalTime :: "int \<Rightarrow> int \<Rightarrow> string \<Rightarrow> parsed option" where
  "parseNaturalTime now later text =
     (let msg = strippedMessage text;
          v = defaultStep now msg
                (timeStep now later msg
                  (dailyStep now later msg
                    (tomorrowStep now msg
                      (inStep now msg (None, msg)))))
      in Some \<lparr>dueAt = fst v, message = (if snd v = [] then ''Reminder'' else snd v)\<rparr>)"

text \<open>Two states of the local variables agree on the message and on whether a due time is set.\<close>

definition sameMessage :: "int option \<times> string \<Rightarrow> int option \<times> string \<Rightarrow> bool" where
  "sameMessage v w = (snd v = snd w \<and> (fst v = None \<longleftrightarrow> fst w = None))"

section \<open>Command dispatcher (bot.js, \<open>handleCommand\<close> and its handlers)\<close>

text \<open>
  The reminder service (\<open>services/reminder.js\<close>) is not among the sources at hand.  Its
  three functions are parameters: each returns its value, or the message of the error it
  throws.
\<close>

record reminder =
  reminderId :: string
  reminderText :: string
  reminderDueAt :: string
  reminderStatus :: string

record services =
  createReminder :: "string \<Rightarrow> string \<Rightarrow> string \<Rightarrow> int option \<Rightarrow> string + reminder"
  getUserReminders :: "string \<Rightarrow> string + reminder list"
  deleteReminder :: "string \<Rightarrow> string \<Rightarrow> string + bool"

text \<open>
  An outbound message is the jid it goes to and its text.  The texts are the templates of
  the source, one constructor each, with the values that a template interpolates.
  \<open>sock.sendMessage\<close> is taken to succeed, and so are the dynamic imports; a handler is
  modelled by the list of messages it sends, in order.
\<close>

datatype reply =
    Pong
  | HelpMessage bool bool
  | BotInfo
  | CurrentTime
  | AdminsOnly
  | AdminList string "string list"
  | AdminRestricted
  | CreatorOnly
  | PromoteUsage
  | InvalidNumber string
  | DemoteUsage
  | InvalidNumberDemote
  | ResultMessage string
  | PromotedNotice string
  | DemotedNotice string
  | BroadcastRestricted
  | BroadcastUsage
  | BroadcastText string string
  | BroadcastSent nat
  | AddReminderUsage
  | CouldNotUnderstandTime
  | ReminderSet reminder
  | ReminderFailed string
  | NoPendingReminders
  | PendingReminders "reminder list"
  | RemindersFailed string
  | CancelUsage
  | ReminderCancelled string
  | ReminderNotFound string
  | CancelFailed string
  | CouldNotUnderstandNatural
  | NaturalReminderSet reminder
  | NaturalReminderFailed string
  | UnknownCommand
  | GroupWelcome
  | StartupMessage
  | OnlineNotification

type_synonym outbound = "string \<times> reply"

text \<open>\<open>s.split(' ')\<close>: the pieces between single spaces, empty pieces included.\<close>

fun splitSpace :: "string \<Rightarrow> string list" where
  "splitSpace [] = [[]]"
| "splitSpace (c # cs) =
     (if c = CHR '' '' then [] # splitSpace cs
      else (case splitSpace cs of p # ps \<Rightarrow> (c # p) # ps | [] \<Rightarrow> [[c]]))"

text \<open>\<open>text.substring(text.indexOf(' ') + 1).trim()\<close>: what follows the command word.\<close>

definition argumentOf :: "string \<Rightarrow> string" where
  "argumentOf text = trim (substring text (indexOf text '' '' + 1))"

definition sendHelpMessage :: "string \<Rightarrow> bool \<Rightarrow> bool \<Rightarrow> outbound list" where
  "sendHelpMessage jid isUserAdmin isGroup = [(jid, HelpMessage isUserAdmin isGroup)]"

definition sendBotInfo :: "string \<Rightarrow> outbound list" where
  "sendBotInfo jid = [(jid, BotInfo)]"

definition sendCurrentTime :: "string \<Rightarrow> outbound list" where
  "sendCurrentTime jid = [(jid, CurrentTime)]"

definition handleAdminsCommand :: "fs \<Rightarrow> string \<Rightarrow> bool \<Rightarrow> outbound list \<times> fs" where
  "handleAdminsCommand s jid isUserAdmin =
     (if \<not> isUserAdmin then ([(jid, AdminsOnly)], s)
      else (case getAdminList s of
              ((creator, admins), s1) \<Rightarrow> ([(jid, AdminList creator admins)], s1)))"

definition handlePromoteCommand ::
  "fs \<Rightarrow> string \<Rightarrow> string \<Rightarrow> string \<Rightarrow> bool \<Rightarrow> bool \<Rightarrow> outbound list \<times> fs" where
  "handlePromoteCommand s jid sender text isUserAdmin isUserCreator =
     (if \<not> isUserAdmin then ([(jid, AdminRestricted)], s)
      else if \<not> isUserCreator then ([(jid, CreatorOnly)], s)
      else (let parts = splitSpace text in
            if length parts < 2 then ([(jid, PromoteUsage)], s)
            else (let phoneNumber = filter isDigit (parts ! 1) in
                  if \<not> startsWith phoneNumber ''880'' \<or> length phoneNumber \<noteq> 13
                  then ([(jid, InvalidNumber phoneNumber)], s)
                  else (let targetJid = phoneNumber @ ''@s.whatsapp.net'' in
                        case promoteAdmin s (Some sender) (Some targetJid) of
                          (result, s1) \<Rightarrow>
                            ((jid, ResultMessage (result_message result)) #
                             (if success result then [(targetJid, PromotedNotice sender)] else []),
                             s1)))))"

definition handleDemoteCommand ::
  "fs \<Rightarrow> string \<Rightarrow> string \<Rightarrow> string \<Rightarrow> bool \<Rightarrow> bool \<Rightarrow> outbound list \<times> fs" where
  "handleDemoteCommand s jid sender text isUserAdmin isUserCreator =
     (if \<not> isUserAdmin then ([(jid, AdminRestricted)], s)
      else if \<not> isUserCreator then ([(jid, CreatorOnly)], s)
      else (let parts = splitSpace text in
            if length parts < 2 then ([(jid, DemoteUsage)], s)
            else (let phoneNumber = filter isDigit (parts ! 1) in
                  if \<not> startsWith phoneNumber ''880'' \<or> length phoneNumber \<noteq> 13
                  then ([(jid, InvalidNumberDemote)], s)
                  else (let targetJid = phoneNumber @ ''@s.whatsapp.net'' in
                        case demoteAdmin s (Some sender) (Some targetJid) of
                          (result, s1) \<Rightarrow>
                            ((jid, ResultMessage (result_message result)) #
                             (if success result then [(targetJid, DemotedNotice sender)] else []),
                             s1)))))"

definition handleBroadcastCommand ::
  "fs \<Rightarrow> string \<Rightarrow> string \<Rightarrow> string \<Rightarrow> bool \<Rightarrow> outbound list \<times> fs" where
  "handleBroadcastCommand s jid sender text isUserAdmin =
     (if \<not> isUserAdmin then ([(jid, BroadcastRestricted)], s)
      else (let broadcastMessage = argumentOf text in
            if broadcastMessage = [] then ([(jid, BroadcastUsage)], s)
            else (case getAdminList s of
                    ((creator, admins), s1) \<Rightarrow>
                      ((CREATOR_JID, BroadcastText broadcastMessage sender) #
                       map (\<lambda>adminJid. (adminJid, BroadcastText broadcastMessage sender))
                         (filter (\<lambda>adminJid. adminJid \<noteq> CREATOR_JID \<and> adminJid \<noteq> sender) admins) @
                       [(jid, BroadcastSent (length admins + 1))],
                       s1))))"

definition handleAddReminder ::
  "services \<Rightarrow> int \<Rightarrow> int \<Rightarrow> string \<Rightarrow> string \<Rightarrow> string \<Rightarrow> outbound list" where
  "handleAddReminder svc now later jid sender text =
     (let reminderText = argumentOf text in
      if reminderText = [] then [(jid, AddReminderUsage)]
      else (case parseNaturalTime now later reminderText of
              None \<Rightarrow> [(jid, CouldNotUnderstandTime)]
            | Some parsedTime \<Rightarrow>
                (case createReminder svc jid sender (message parsedTime) (dueAt parsedTime) of
                   Inl err \<Rightarrow> [(jid, ReminderFailed err)]
                 | Inr reminder \<Rightarrow> [(jid, ReminderSet reminder)])))"

definition handleMyReminders :: "services \<Rightarrow> string \<Rightarrow> string \<Rightarrow> outbound list" where
  "handleMyReminders svc jid sender =
     (case getUserReminders svc sender of
        Inl err \<Rightarrow> [(jid, RemindersFailed err)]
      | Inr reminders \<Rightarrow>
          (let pendingReminders = filter (\<lambda>r. reminderStatus r = ''pending'') reminders in
           if length pendingReminders = 0 then [(jid, NoPendingReminders)]
           else [(jid, PendingReminders pendingReminders)]))"

definition handleCancelReminder :: "services \<Rightarrow> string \<Rightarrow> string \<Rightarrow> string \<Rightarrow> outbound list" where
  "handleCancelReminder svc jid sender text =
     (let reminderId = argumentOf text in
      if reminderId = [] then [(jid, CancelUsage)]
      else (case deleteReminder svc reminderId sender of
              Inl err \<Rightarrow> [(jid, CancelFailed err)]
            | Inr ok \<Rightarrow>
                if ok then [(jid, ReminderCancelled reminderId)]
                else [(jid, ReminderNotFound reminderId)]))"

definition handleNaturalReminder ::
  "services \<Rightarrow> int \<Rightarrow> int \<Rightarrow> string \<Rightarrow> string \<Rightarrow> string \<Rightarrow> outbound list" where
  "handleNaturalReminder svc now later jid sender text =
     (case parseNaturalTime now later text of
        None \<Rightarrow> [(jid, CouldNotUnderstandNatural)]
      | Some parsedTime \<Rightarrow>
          (case createReminder svc jid sender (message parsedTime) (dueAt parsedTime) of
             Inl err \<Rightarrow> [(jid, NaturalReminderFailed err)]
           | Inr reminder \<Rightarrow> [(jid, NaturalReminderSet reminder)]))"

text \<open>
  The routing of \<open>handleCommand\<close>: the chain of tests, each ending in \<open>return\<close>, gives the
  branch that runs.  \<open>None\<close>: no branch, the function ends without a reply.
\<close>

datatype command =
    CmdPing | CmdHelp | CmdInfo | CmdTime | CmdAdmins | CmdPromote | CmdDemote | CmdBroadcast
  | CmdAddReminder | CmdMyReminders | CmdCancelReminder | CmdNaturalReminder | CmdUnknown

definition route :: "string \<Rightarrow> command option" where
  "route text =
     (let lowerText = toLowerCase text in
      if lowerText = ''!ping'' \<or> lowerText = ''/ping'' then Some CmdPing
      else if lowerText = ''!help'' \<or> lowerText = ''/help'' \<or> lowerText = ''!start'' then Some CmdHelp
      else if lowerText = ''!info'' \<or> lowerText = ''/info'' then Some CmdInfo
      else if lowerText = ''!time'' \<or> lowerText = ''/time'' then Some CmdTime
      else if lowerText = ''!admins'' \<or> lowerText = ''/admins'' then Some CmdAdmins
      else if startsWith lowerText ''!promote'' \<or> startsWith lowerText ''/promote'' then Some CmdPromote
      else if startsWith lowerText ''!demote'' \<or> startsWith lowerText ''/demote'' then Some CmdDemote
      else if startsWith lowerText ''!broadcast'' \<or> startsWith lowerText ''/broadcast''
        then Some CmdBroadcast
      else if startsWith lowerText ''!addreminder'' \<or> startsWith lowerText ''/addreminder''
        then Some CmdAddReminder
      else if startsWith lowerText ''!myreminders'' \<or> startsWith lowerText ''/myreminders''
        then Some CmdMyReminders
      else if startsWith lowerText ''!cancelreminder'' \<or> startsWith lowerText ''/cancelreminder''
        then Some CmdCancelReminder
      else if str_includes (toLowerCase text) ''remind me'' \<or>
              str_includes (toLowerCase text) ''reminder'' \<or>
              str_includes (toLowerCase text) ''alarm''
        then Some CmdNaturalReminder
      else if startsWith text ''!'' \<or> startsWith text ''/'' then Some CmdUnknown
      else None)"

record params =
  p_jid :: string
  p_sender :: string
  p_text :: string
  p_pushName :: string
  p_isGroup :: bool

definition handleCommand ::
  "services \<Rightarrow> int \<Rightarrow> int \<Rightarrow> fs \<Rightarrow> params \<Rightarrow> outbound list \<times> fs" where
  "handleCommand svc now later s p =
     (case isAdmin s (Some (p_sender p)) of
        (isUserAdmin, s1) \<Rightarrow>
          (let isUserCreator = isCreator (Some (p_sender p)) in
           case route (p_text p) of
             Some CmdPing \<Rightarrow> ([(p_jid p, Pong)], s1)
           | Some CmdHelp \<Rightarrow> (sendHelpMessage (p_jid p) isUserAdmin (p_isGroup p), s1)
           | Some CmdInfo \<Rightarrow> (sendBotInfo (p_jid p), s1)
           | Some CmdTime \<Rightarrow> (sendCurrentTime (p_jid p), s1)
           | Some CmdAdmins \<Rightarrow> handleAdminsCommand s1 (p_jid p) isUserAdmin
           | Some CmdPromote \<Rightarrow>
               handlePromoteCommand s1 (p_jid p) (p_sender p) (p_text p) isUserAdmin isUserCreator
           | Some CmdDemote \<Rightarrow>
               handleDemoteCommand s1 (p_jid p) (p_sender p) (p_text p) isUserAdmin isUserCreator
           | Some CmdBroadcast \<Rightarrow>
               handleBroadcastCommand s1 (p_jid p) (p_sender p) (p_text p) isUserAdmin
           | Some CmdAddReminder \<Rightarrow>
               (handleAddReminder svc now later (p_jid p) (p_sender p) (p_text p), s1)
           | Some CmdMyReminders \<Rightarrow> (handleMyReminders svc (p_jid p) (p_sender p), s1)
           | Some CmdCancelReminder \<Rightarrow>
               (handleCancelReminder svc (p_jid p) (p_sender p) (p_text p), s1)
           | Some CmdNaturalReminder \<Rightarrow>
               (handleNaturalReminder svc now later (p_jid p) (p_sender p) (p_text p), s1)
           | Some CmdUnknown \<Rightarrow> ([(p_jid p, UnknownCommand)], s1)
           | None \<Rightarrow> ([], s1)))"

text \<open>
  The dispatcher as a table: the tests in their order, each with the branch it selects, and
  the first test that holds decides.
\<close>

definition commandTable :: "((string \<Rightarrow> bool) \<times> command) list" where
  "commandTable =
     [(\<lambda>t. toLowerCase t \<in> {''!ping'', ''/ping''}, CmdPing),
      (\<lambda>t. toLowerCase t \<in> {''!help'', ''/help'', ''!start''}, CmdHelp),
      (\<lambda>t. toLowerCase t \<in> {''!info'', ''/info''}, CmdInfo),
      (\<lambda>t. toLowerCase t \<in> {''!time'', ''/time''}, CmdTime),
      (\<lambda>t. toLowerCase t \<in> {''!admins'', ''/admins''}, CmdAdmins),
      (\<lambda>t. \<exists>w \<in> {''!promote'', ''/promote''}. startsWith (toLowerCase t) w, CmdPromote),
      (\<lambda>t. \<exists>w \<in> {''!demote'', ''/demote''}. startsWith (toLowerCase t) w, CmdDemote),
      (\<lambda>t. \<exists>w \<in> {''!broadcast'', ''/broadcast''}. startsWith (toLowerCase t) w, CmdBroadcast),
      (\<lambda>t. \<exists>w \<in> {''!addreminder'', ''/addreminder''}. startsWith (toLowerCase t) w, CmdAddReminder),
      (\<lambda>t. \<exists>w \<in> {''!myreminders'', ''/myreminders''}. startsWith (toLowerCase t) w, CmdMyReminders),
      (\<lambda>t. \<exists>w \<in> {''!cancelreminder'', ''/cancelreminder''}. startsWith (toLowerCase t) w,
       CmdCancelReminder),
      (\<lambda>t. \<exists>w \<in> {''remind me'', ''reminder'', ''alarm''}. str_includes (toLowerCase t) w,
       CmdNaturalReminder),
      (\<lambda>t. \<exists>w \<in> {''!'', ''/''}. startsWith t w, CmdUnknown)]"

fun firstMatch :: "((string \<Rightarrow> bool) \<times> command) list \<Rightarrow> string \<Rightarrow> command option" where
  "firstMatch [] t = None"
| "firstMatch ((test, c) # rules) t = (if test t then Some c else firstMatch rules t)"

definition svc0 :: services where
  "svc0 = \<lparr>createReminder = (\<lambda>jid sender txt due.
              Inr \<lparr>reminderId = ''r1'', reminderText = txt, reminderDueAt = '''',
                   reminderStatus = ''pending''\<rparr>),
           getUserReminders = (\<lambda>sender. Inr []),
           deleteReminder = (\<lambda>rid sender. Inr False)\<rparr>"

definition params0 :: "string \<Rightarrow> params" where
  "params0 t = \<lparr>p_jid = ''8801912345678@s.whatsapp.net'', p_sender = ''8801912345678@s.whatsapp.net'',
                p_text = t, p_pushName = ''User'', p_isGroup = False\<rparr>"

section \<open>The events of the running bot (index.js and \<open>createBot\<close>)\<close>

text \<open>A \<open>connection.update\<close> event.\<close>

record update =
  u_connection :: "string option"
  u_lastDisconnect :: jsval
  u_qr :: "string option"

text \<open>A \<open>group-participants.update\<close> event.\<close>

record group_update =
  g_id :: string
  g_participants :: "string list"
  g_action :: string

text \<open>
  The content of a message: \<open>conversation\<close>, and the four kinds of message object with
  their text or caption, each of which may be absent.
\<close>

record content =
  c_conversation :: "string option"
  c_extendedTextMessage :: "string option option"
  c_imageMessage :: "string option option"
  c_videoMessage :: "string option option"
  c_documentMessage :: "string option option"

record wa_message =
  m_message :: "content option"
  m_fromMe :: bool
  m_remoteJid :: string
  m_participant :: "string option"
  m_pushName :: "string option"

text \<open>A \<open>messages.upsert\<close> event.\<close>

record upsert =
  up_type :: string
  up_messages :: "wa_message list"

definition endsWith :: "string \<Rightarrow> string \<Rightarrow> bool" where
  "endsWith s w = (length w \<le> length s \<and> drop (length s - length w) s = w)"

definition isJidBroadcast :: "string \<Rightarrow> bool" where
  "isJidBroadcast j = endsWith j ''@broadcast''"

text \<open>\<open>caption || ''\<close>.\<close>

definition orEmpty :: "string option \<Rightarrow> string" where
  "orEmpty caption = (case caption of Some c \<Rightarrow> c | None \<Rightarrow> [])"

text \<open>
  The text of a message.  \<open>None\<close>: the type is not handled and the message is skipped.
  \<open>Some None\<close>: an extended text message without a text; the call \<open>text.trim()\<close> then throws,
  which ends the handling of the event.
\<close>

definition extractText :: "content \<Rightarrow> string option option" where
  "extractText c =
     (if \<not> falsy (c_conversation c) then Some (c_conversation c)
      else case c_extendedTextMessage c of
        Some t \<Rightarrow> Some t
      | None \<Rightarrow>
          (case c_imageMessage c of
             Some caption \<Rightarrow> Some (Some (orEmpty caption))
           | None \<Rightarrow>
               (case c_videoMessage c of
                  Some caption \<Rightarrow> Some (Some (orEmpty caption))
                | None \<Rightarrow>
                    (case c_documentMessage c of
                       Some caption \<Rightarrow> Some (Some (orEmpty caption))
                     | None \<Rightarrow> None))))"

text \<open>The loop of \<open>handleMessagesUpsert\<close> over the messages of the event.\<close>

fun processMessages ::
  "services \<Rightarrow> int \<Rightarrow> int \<Rightarrow> fs \<Rightarrow> wa_message list \<Rightarrow> outbound list \<times> fs" where
  "processMessages svc now later s [] = ([], s)"
| "processMessages svc now later s (msg # msgs) =
     (case m_message msg of
        None \<Rightarrow> processMessages svc now later s msgs
      | Some messageContent \<Rightarrow>
          if m_fromMe msg then processMessages svc now later s msgs
          else if isJidBroadcast (m_remoteJid msg) then processMessages svc now later s msgs
          else (case extractText messageContent of
                  None \<Rightarrow> processMessages svc now later s msgs
                | Some None \<Rightarrow> ([], s)
                | Some (Some t) \<Rightarrow>
                    if trim t \<noteq> [] then
                      (case handleCommand svc now later s
                              \<lparr>p_jid = m_remoteJid msg,
                               p_sender = (if falsy (m_participant msg) then m_remoteJid msg
                                           else the (m_participant msg)),
                               p_text = trim t,
                               p_pushName = (if falsy (m_pushName msg) then ''User''
                                             else the (m_pushName msg)),
                               p_isGroup = endsWith (m_remoteJid msg) ''@g.us''\<rparr> of
                         (out, s1) \<Rightarrow>
                           (case processMessages svc now later s1 msgs of
                              (outs, s2) \<Rightarrow> (out @ outs, s2)))
                    else processMessages svc now later s msgs))"

definition handleMessagesUpsert ::
  "services \<Rightarrow> int \<Rightarrow> int \<Rightarrow> fs \<Rightarrow> upsert \<Rightarrow> outbound list \<times> fs" where
  "handleMessagesUpsert svc now later s m =
     (if up_type m \<noteq> ''notify'' then ([], s)
      else processMessages svc now later s (up_messages m))"

text \<open>
  The welcome in a group the bot is added to.  \<open>botUserId\<close> is \<open>sock.user.id\<close>, of which
  the part before the first colon counts.
\<close>

definition handleGroupParticipantsUpdate :: "string \<Rightarrow> group_update \<Rightarrow> outbound list" where
  "handleGroupParticipantsUpdate botUserId g =
     (if g_action g = ''add'' \<and>
         (takeWhile (\<lambda>c. c \<noteq> CHR '':'') botUserId @ ''@s.whatsapp.net'') \<in> set (g_participants g)
      then [(g_id g, GroupWelcome)] else [])"

definition sendStartupMessage :: "outbound list" where
  "sendStartupMessage = [(CREATOR_JID, StartupMessage)]"

definition notifyAdmins :: "fs \<Rightarrow> outbound list \<times> fs" where
  "notifyAdmins s =
     (case getAdminList s of
        ((creator, admins), s1) \<Rightarrow>
          ((CREATOR_JID, OnlineNotification) #
           map (\<lambda>adminJid. (adminJid, OnlineNotification))
             (filter (\<lambda>adminJid. adminJid \<noteq> CREATOR_JID) admins),
           s1))"

text \<open>The state of the process: the module variables of bot.js and the admins file.\<close>

record system =
  sys_bot :: bot
  sys_files :: fs

text \<open>
  The handler of \<open>connection.update\<close>.  A QR code goes to the callbacks only.  After a
  close that is answered by a reconnect, the handler waits and calls \<open>createBot\<close> again,
  which subscribes the same handlers on a new socket and sends nothing.
\<close>

definition handleConnectionUpdate :: "system \<Rightarrow> update \<Rightarrow> outbound list \<times> system" where
  "handleConnectionUpdate sys u =
     (if u_connection u = Some ''close'' then
        (case onConnectionClose (sys_bot sys) (u_lastDisconnect u) of
           (outcome, b) \<Rightarrow> ([], sys\<lparr>sys_bot := b\<rparr>))
      else if u_connection u = Some ''open'' then
        (case notifyAdmins (sys_files sys) of
           (out, s1) \<Rightarrow>
             (sendStartupMessage @ out,
              \<lparr>sys_bot = (sys_bot sys)\<lparr>isConnected := True, connectionRetries := 0\<rparr>,
               sys_files = s1\<rparr>))
      else ([], sys))"

text \<open>
  What the process reacts to: the five subscriptions of \<open>createBot\<close> besides
  \<open>connection.update\<close>, and the tick of the interval timer of index.js, whose callback is
  empty.  No other callback is registered in the sources at hand, and the exported function
  \<open>sendMessage\<close> has no caller there.
\<close>

datatype event =
    CredsUpdate
  | ConnectionUpdate update
  | MessagesUpsert upsert
  | MessagesUpdate
  | GroupParticipantsUpdate group_update
  | GroupsUpdate
  | KeepAliveTick

text \<open>One step of the system: the messages sent in reaction to an event, and the new state.\<close>

definition handleEvent ::
  "services \<Rightarrow> int \<Rightarrow> int \<Rightarrow> string \<Rightarrow> system \<Rightarrow> event \<Rightarrow> outbound list \<times> system" where
  "handleEvent svc now later botUserId sys ev =
     (case ev of
        CredsUpdate \<Rightarrow> ([], sys)
      | ConnectionUpdate u \<Rightarrow> handleConnectionUpdate sys u
      | MessagesUpsert m \<Rightarrow>
          (case handleMessagesUpsert svc now later (sys_files sys) m of
             (out, s1) \<Rightarrow> (out, sys\<lparr>sys_files := s1\<rparr>))
      | MessagesUpdate \<Rightarrow> ([], sys)
      | GroupParticipantsUpdate g \<Rightarrow> (handleGroupParticipantsUpdate botUserId g, sys)
      | GroupsUpdate \<Rightarrow> ([], sys)
      | KeepAliveTick \<Rightarrow> ([], sys))"

text \<open>A run of the system over a list of events: all messages sent, in order.\<close>

fun runEvents ::
  "services \<Rightarrow> string \<Rightarrow> system \<Rightarrow> (int \<times> event) list \<Rightarrow> outbound list" where
  "runEvents svc botUserId sys [] = []"
| "runEvents svc botUserId sys ((now, ev) # evs) =
     (case handleEvent svc now now botUserId sys ev of
        (out, sys1) \<Rightarrow> out @ runEvents svc botUserId sys1 evs)"

definition sys0 :: system where
  "sys0 = \<lparr>sys_bot = bot0, sys_files = fs0\<rparr>"

text \<open>A service that holds one pending reminder, due at time 0.\<close>

definition svc1 :: services where
  "svc1 = \<lparr>createReminder = (\<lambda>jid sender txt due. Inl ''full''),
           getUserReminders = (\<lambda>sender.
              Inr [\<lparr>reminderId = ''r1'', reminderText = ''call mom'',
                    reminderDueAt = ''1970-01-01T00:00:00.000Z'', reminderStatus = ''pending''\<rparr>]),
           deleteReminder = (\<lambda>rid sender. Inr False)\<rparr>"

text \<open>A private message asking for the list of reminders.\<close>

definition upsert0 :: upsert where
  "upsert0 = \<lparr>up_type = ''notify'',
              up_messages = [\<lparr>m_message = Some \<lparr>c_conversation = Some ''!myreminders'',
                                c_extendedTextMessage = None, c_imageMessage = None,
                                c_videoMessage = None, c_documentMessage = None\<rparr>,
                              m_fromMe = False, m_remoteJid = ''8801912345678@s.whatsapp.net'',
                              m_participant = None, m_pushName = Some ''Mina''\<rparr>]\<rparr>"

section \<open>Properties of the admin store\<close>

lemma storedAdmins_ensure: "storedAdmins (ensureAdminsFile s) = storedAdmins s"
  by (simp add: storedAdmins_def ensureAdminsFile_def writeFile_def split: option.splits doc.splits)

lemma readAdminsFromFile_stored: "fst (readAdminsFromFile s) = storedAdmins s"
  by (simp add: readAdminsFromFile_def Let_def storedAdmins_def ensureAdminsFile_def writeFile_def
      split: option.splits doc.splits)

lemma readAdminsFromFile_state: "snd (readAdminsFromFile s) = ensureAdminsFile s"
  by (simp add: readAdminsFromFile_def Let_def)

lemma ensureAdminsFile_flags:
  "write_ok (ensureAdminsFile s) = write_ok s"
  "read_ok (ensureAdminsFile s) = read_ok s"
  "mkdir_ok (ensureAdminsFile s) = mkdir_ok s"
  "write_truncates (ensureAdminsFile s) = write_truncates s"
  by (simp_all add: ensureAdminsFile_def writeFile_def split: option.splits)

lemma startsWith_iff: "startsWith s p \<longleftrightarrow> (\<exists>post. s = p @ post)"
proof
  assume "startsWith s p"
  then have "s = p @ drop (length p) s"
    by (metis append_take_drop_id startsWith_def)
  then show "\<exists>post. s = p @ post" ..
next
  assume "\<exists>post. s = p @ post"
  then show "startsWith s p" by (auto simp: startsWith_def)
qed

lemma str_includes_iff: "str_includes s w \<longleftrightarrow> (\<exists>pre post. s = pre @ w @ post)"
proof (induction s)
  case Nil
  show ?case by simp
next
  case (Cons c cs)
  have "(\<exists>pre post. c # cs = pre @ w @ post) \<longleftrightarrow>
        (\<exists>post. c # cs = w @ post) \<or> (\<exists>pre post. cs = pre @ w @ post)"
  proof
    assume "\<exists>pre post. c # cs = pre @ w @ post"
    then obtain pre post where e: "c # cs = pre @ w @ post" by blast
    show "(\<exists>post. c # cs = w @ post) \<or> (\<exists>pre post. cs = pre @ w @ post)"
    proof (cases pre)
      case Nil
      with e show ?thesis by auto
    next
      case (Cons a pre')
      with e have "cs = pre' @ w @ post" by simp
      then show ?thesis by blast
    qed
  next
    assume "(\<exists>post. c # cs = w @ post) \<or> (\<exists>pre post. cs = pre @ w @ post)"
    then show "\<exists>pre post. c # cs = pre @ w @ post"
    proof
      assume "\<exists>post. c # cs = w @ post"
      then obtain post where "c # cs = [] @ w @ post" by auto
      then show ?thesis by blast
    next
      assume "\<exists>pre post. cs = pre @ w @ post"
      then obtain pre post where "c # cs = (c # pre) @ w @ post" by auto
      then show ?thesis by blast
    qed
  qed
  with Cons show ?case by (simp add: startsWith_iff)
qed

lemma promoteAdmin_unfold:
  "promoteAdmin s p t =
     (if \<not> isCreator p then
        (\<lparr>success = False, result_message = ''Only the creator can promote admins''\<rparr>, s)
      else if invalidJid t then
        (\<lparr>success = False, result_message = ''Invalid JID format''\<rparr>, s)
      else if isCreator t then
        (\<lparr>success = False, result_message = ''Creator is already admin''\<rparr>, s)
      else if the t \<in> set (storedAdmins s) then
        (\<lparr>success = False, result_message = ''User is already an admin''\<rparr>, ensureAdminsFile s)
      else if \<not> write_ok s then
        (\<lparr>success = False, result_message = ''Failed to promote user''\<rparr>,
         if write_truncates s then (ensureAdminsFile s)\<lparr>admins_file := Some Garbage\<rparr>
         else ensureAdminsFile s)
      else
        (\<lparr>success = True, result_message = ''User promoted to admin successfully''\<rparr>,
         (ensureAdminsFile s)\<lparr>admins_file := Some (AdminsDoc (storedAdmins s @ [the t]))\<rparr>))"
proof -
  obtain admins s1 where r: "readAdminsFromFile s = (admins, s1)"
    by (cases "readAdminsFromFile s")
  have a: "admins = storedAdmins s" and b: "s1 = ensureAdminsFile s"
    using r readAdminsFromFile_stored [of s] readAdminsFromFile_state [of s] by simp_all
  show ?thesis
    unfolding promoteAdmin_def r
    by (simp add: a b writeAdminsToFile_def writeFile_def ensureAdminsFile_flags)
qed

lemma demoteAdmin_unfold:
  "demoteAdmin s p t =
     (if \<not> isCreator p then
        (\<lparr>success = False, result_message = ''Only the creator can demote admins''\<rparr>, s)
      else if invalidJid t then
        (\<lparr>success = False, result_message = ''Invalid JID format''\<rparr>, s)
      else if isCreator t then
        (\<lparr>success = False, result_message = ''Cannot demote the creator''\<rparr>, s)
      else if the t \<notin> set (storedAdmins s) then
        (\<lparr>success = False, result_message = ''User is not an admin''\<rparr>, ensureAdminsFile s)
      else if \<not> write_ok s then
        (\<lparr>success = False, result_message = ''Failed to demote user''\<rparr>,
         if write_truncates s then (ensureAdminsFile s)\<lparr>admins_file := Some Garbage\<rparr>
         else ensureAdminsFile s)
      else
        (\<lparr>success = True, result_message = ''User demoted from admin successfully''\<rparr>,
         (ensureAdminsFile s)\<lparr>admins_file :=
            Some (AdminsDoc (filter (\<lambda>jid. jid \<noteq> the t) (storedAdmins s)))\<rparr>))"
proof -
  obtain admins s1 where r: "readAdminsFromFile s = (admins, s1)"
    by (cases "readAdminsFromFile s")
  have a: "admins = storedAdmins s" and b: "s1 = ensureAdminsFile s"
    using r readAdminsFromFile_stored [of s] readAdminsFromFile_state [of s] by simp_all
  show ?thesis
    unfolding demoteAdmin_def r
    by (simp add: a b writeAdminsToFile_def writeFile_def ensureAdminsFile_flags)
qed

lemma storedAdmins_written:
  "storedAdmins (s\<lparr>admins_file := Some (AdminsDoc xs)\<rparr>) = (if read_ok s then xs else [])"
  "storedAdmins (s\<lparr>admins_file := Some Garbage\<rparr>) = []"
  by (simp_all add: storedAdmins_def)

text \<open>
  C5.  The claim that every failure leaves the stored admin list unchanged fails for a
  failed write, which may leave the file cut short.  What holds: \<open>promoteAdmin\<close> succeeds
  exactly when the promoter is the creator, the target is a string containing
  \<open>@s.whatsapp.net\<close>, the target is not the creator, the target is not in the stored admin
  list, and the write of the file succeeds.  On success the file then holds the stored list
  with exactly the target appended.  On a failure the stored admin list is what it was,
  unless the failure is that of the write and the write had emptied the file: then the
  stored list is empty.
\<close>

theorem promoteAdmin_success_iff:
  "(success (fst (promoteAdmin s p t)) \<longleftrightarrow>
      isCreator p \<and> (\<exists>j. t = Some j \<and> str_includes j ''@s.whatsapp.net'') \<and>
      \<not> isCreator t \<and> the t \<notin> set (storedAdmins s) \<and> write_ok s)
   \<and> (success (fst (promoteAdmin s p t)) \<longrightarrow>
         admins_file (snd (promoteAdmin s p t)) = Some (AdminsDoc (storedAdmins s @ [the t]))
         \<and> (read_ok s \<longrightarrow> storedAdmins (snd (promoteAdmin s p t)) = storedAdmins s @ [the t]))
   \<and> (\<not> success (fst (promoteAdmin s p t)) \<longrightarrow>
         storedAdmins (snd (promoteAdmin s p t)) =
           (if isCreator p \<and> (\<exists>j. t = Some j \<and> str_includes j ''@s.whatsapp.net'') \<and>
               \<not> isCreator t \<and> the t \<notin> set (storedAdmins s) \<and> write_truncates s
            then [] else storedAdmins s))"
proof -
  have v: "\<not> invalidJid t \<longleftrightarrow> (\<exists>j. t = Some j \<and> str_includes j ''@s.whatsapp.net'')"
    by (cases t) (auto simp: invalidJid_def falsy_def)
  show ?thesis
    unfolding promoteAdmin_unfold v [symmetric]
    by (simp add: storedAdmins_ensure storedAdmins_written ensureAdminsFile_flags)
qed

theorem promoteAdmin_success_iff_witness:
  "success (fst (promoteAdmin fs0 (Some CREATOR_JID) (Some ''8801812345678@s.whatsapp.net'')))
   \<and> admins_file (snd (promoteAdmin fs0 (Some CREATOR_JID) (Some ''8801812345678@s.whatsapp.net'')))
       = Some (AdminsDoc [''8801712345678@s.whatsapp.net'', ''8801812345678@s.whatsapp.net''])
   \<and> \<not> success (fst (promoteAdmin fs0 (Some CREATOR_JID) (Some ''8801712345678@s.whatsapp.net'')))
   \<and> storedAdmins (snd (promoteAdmin fs0 (Some CREATOR_JID) (Some ''8801712345678@s.whatsapp.net'')))
       = storedAdmins fs0"
  using promoteAdmin_success_iff [of fs0 "Some CREATOR_JID" "Some ''8801812345678@s.whatsapp.net''"]
    promoteAdmin_success_iff [of fs0 "Some CREATOR_JID" "Some ''8801712345678@s.whatsapp.net''"]
  by (simp add: fs0_def storedAdmins_def isCreator_def CREATOR_JID_def startsWith_def)

text \<open>
  On a full disk the promotion fails, and the admin that was stored is gone: the failed
  write has emptied the file.
\<close>

theorem promoteAdmin_failed_write_counterexample:
  "\<not> success (fst (promoteAdmin fsFull (Some CREATOR_JID) (Some ''8801812345678@s.whatsapp.net'')))
   \<and> storedAdmins fsFull = [''8801712345678@s.whatsapp.net'']
   \<and> storedAdmins (snd (promoteAdmin fsFull (Some CREATOR_JID) (Some ''8801812345678@s.whatsapp.net''))) = []"
  by (simp add: promoteAdmin_unfold fsFull_def storedAdmins_def isCreator_def CREATOR_JID_def
      invalidJid_def falsy_def startsWith_def ensureAdminsFile_def)

text \<open>
  C7.  The creator is a constant of the module.  \<open>isAdmin\<close> answers true for the creator
  whatever the file holds, and \<open>promoteAdmin\<close> and \<open>demoteAdmin\<close> with the creator as
  target fail and leave the file system, hence the stored admin list, untouched.
\<close>

theorem creator_fixed:
  "isAdmin s (Some CREATOR_JID) = (True, s)
   \<and> \<not> success (fst (promoteAdmin s p (Some CREATOR_JID)))
   \<and> snd (promoteAdmin s p (Some CREATOR_JID)) = s
   \<and> \<not> success (fst (demoteAdmin s p (Some CREATOR_JID)))
   \<and> snd (demoteAdmin s p (Some CREATOR_JID)) = s"
proof -
  have c: "isCreator (Some CREATOR_JID)" by (simp add: isCreator_def)
  have f: "\<not> falsy (Some CREATOR_JID)" by (simp add: falsy_def CREATOR_JID_def)
  show ?thesis
    unfolding promoteAdmin_unfold demoteAdmin_unfold
    by (simp add: c f isAdmin_def)
qed

theorem creator_fixed_witness:
  "isAdmin fs0 (Some CREATOR_JID) = (True, fs0)
   \<and> \<not> success (fst (promoteAdmin fs0 (Some CREATOR_JID) (Some CREATOR_JID)))
   \<and> snd (demoteAdmin fs0 (Some CREATOR_JID) (Some CREATOR_JID)) = fs0"
  using creator_fixed [of fs0 "Some CREATOR_JID"] by simp

text \<open>
  C8.  Every query reads the file anew: \<open>isAdmin\<close> is true exactly for a non-empty jid
  that is the creator or a member of the list stored in the file at the time of the call,
  and \<open>getAdminList\<close> returns that list.  Neither changes the stored list.  So a change
  is seen by the next call: after a successful promotion (of a readable file) the target
  is an admin, and after a successful demotion it is not.
\<close>

theorem isAdmin_reads_file:
  "(fst (isAdmin s jid) \<longleftrightarrow>
      \<not> falsy jid \<and> (isCreator jid \<or> the jid \<in> set (storedAdmins s)))
   \<and> storedAdmins (snd (isAdmin s jid)) = storedAdmins s
   \<and> fst (getAdminList s) = (CREATOR_JID, storedAdmins s)
   \<and> storedAdmins (snd (getAdminList s)) = storedAdmins s
   \<and> (success (fst (promoteAdmin s p t)) \<and> read_ok s \<longrightarrow>
        fst (isAdmin (snd (promoteAdmin s p t)) t))
   \<and> (success (fst (demoteAdmin s p t)) \<longrightarrow>
        \<not> fst (isAdmin (snd (demoteAdmin s p t)) t))"
proof -
  have q: "fst (isAdmin s' j) \<longleftrightarrow>
      \<not> falsy j \<and> (isCreator j \<or> the j \<in> set (storedAdmins s'))" for s' j
    using readAdminsFromFile_stored [of s']
    by (auto simp: isAdmin_def split: prod.splits)
  have k: "storedAdmins (snd (isAdmin s jid)) = storedAdmins s"
    using readAdminsFromFile_state [of s]
    by (auto simp: isAdmin_def storedAdmins_ensure split: prod.splits)
  have g: "fst (getAdminList s) = (CREATOR_JID, storedAdmins s)"
    using readAdminsFromFile_stored [of s]
    by (auto simp: getAdminList_def split: prod.splits)
  have h: "storedAdmins (snd (getAdminList s)) = storedAdmins s"
    using readAdminsFromFile_state [of s]
    by (auto simp: getAdminList_def storedAdmins_ensure split: prod.splits)
  have pr: "success (fst (promoteAdmin s p t)) \<and> read_ok s \<longrightarrow>
        fst (isAdmin (snd (promoteAdmin s p t)) t)"
    unfolding q promoteAdmin_unfold
    by (auto simp: storedAdmins_written ensureAdminsFile_flags invalidJid_def)
  have de: "success (fst (demoteAdmin s p t)) \<longrightarrow>
        \<not> fst (isAdmin (snd (demoteAdmin s p t)) t)"
    unfolding q demoteAdmin_unfold
    by (auto simp: storedAdmins_written ensureAdminsFile_flags invalidJid_def)
  from q [of s jid] k g h pr de show ?thesis by blast
qed

theorem isAdmin_reads_file_witness:
  "fst (isAdmin fs0 (Some ''8801712345678@s.whatsapp.net''))
   \<and> \<not> fst (isAdmin fs0 (Some ''8801812345678@s.whatsapp.net''))
   \<and> \<not> fst (isAdmin fs0 None)
   \<and> fst (isAdmin (snd (promoteAdmin fs0 (Some CREATOR_JID) (Some ''8801812345678@s.whatsapp.net'')))
        (Some ''8801812345678@s.whatsapp.net''))
   \<and> \<not> fst (isAdmin (snd (demoteAdmin fs0 (Some CREATOR_JID) (Some ''8801712345678@s.whatsapp.net'')))
        (Some ''8801712345678@s.whatsapp.net''))"
proof -
  have a: "success (fst (promoteAdmin fs0 (Some CREATOR_JID) (Some ''8801812345678@s.whatsapp.net'')))"
    by (simp add: promoteAdmin_unfold fs0_def storedAdmins_def isCreator_def CREATOR_JID_def
        invalidJid_def falsy_def startsWith_def)
  have b: "success (fst (demoteAdmin fs0 (Some CREATOR_JID) (Some ''8801712345678@s.whatsapp.net'')))"
    by (simp add: demoteAdmin_unfold fs0_def storedAdmins_def isCreator_def CREATOR_JID_def
        invalidJid_def falsy_def startsWith_def)
  have r: "read_ok fs0" by (simp add: fs0_def)
  have m: "storedAdmins fs0 = [''8801712345678@s.whatsapp.net'']"
    by (simp add: fs0_def storedAdmins_def)
  show ?thesis
    using isAdmin_reads_file [of fs0 "Some ''8801712345678@s.whatsapp.net''" "Some CREATOR_JID"
        "Some ''8801812345678@s.whatsapp.net''"]
      isAdmin_reads_file [of fs0 "Some ''8801812345678@s.whatsapp.net''" "Some CREATOR_JID"
        "Some ''8801712345678@s.whatsapp.net''"]
      isAdmin_reads_file [of fs0 None "Some CREATOR_JID" "Some ''8801712345678@s.whatsapp.net''"]
      a b r
    by (simp add: m falsy_def isCreator_def CREATOR_JID_def)
qed

section \<open>Properties of the connection manager\<close>

lemma statusCodeOf_undefined: "statusCodeOf ld = JUndefined"
  by (simp add: statusCodeOf_def optChain_def)

lemma shouldReconnect_always: "shouldReconnect ld"
  by (simp add: shouldReconnect_def statusCodeOf_undefined)

lemma onConnectionClose_eq:
  "onConnectionClose b ld =
     (if connectionRetries b < 5 then
        (Reconnect (delayTime (Suc (connectionRetries b))),
         b\<lparr>isConnected := False, connectionRetries := Suc (connectionRetries b)\<rparr>)
      else (MaxRetriesReached, b\<lparr>isConnected := False\<rparr>))"
  by (simp add: onConnectionClose_def Let_def statusCodeOf_undefined shouldReconnect_always
      MAX_RETRIES_def)

text \<open>
  C3.  On every close event the extracted status code is \<open>undefined\<close>, whatever the
  disconnect was; so \<open>shouldReconnect\<close> is true also for a logged-out disconnect (which is
  answered by a reconnect), and the retry counter is never reset by the status code: it
  goes up by one below the maximum and stays as it is at the maximum.
\<close>

theorem statusCode_always_undefined:
  "statusCodeOf ld = JUndefined
   \<and> shouldReconnect ld
   \<and> shouldReconnect (boomDisconnect DisconnectReason_loggedOut)
   \<and> fst (onConnectionClose b ld) \<noteq> CannotReconnect
   \<and> connectionRetries (snd (onConnectionClose b ld)) =
       (if connectionRetries b < MAX_RETRIES then connectionRetries b + 1 else connectionRetries b)
   \<and> connectionRetries (snd (onConnectionClose b (boomDisconnect DisconnectReason_connectionClosed))) =
       (if connectionRetries b < MAX_RETRIES then connectionRetries b + 1 else connectionRetries b)"
  by (simp add: statusCodeOf_undefined shouldReconnect_always onConnectionClose_eq MAX_RETRIES_def)

theorem statusCode_always_undefined_witness:
  "statusCodeOf (boomDisconnect 401) = JUndefined
   \<and> onConnectionClose bot0 (boomDisconnect 401) =
       (Reconnect 2000, \<lparr>isConnected = False, connectionRetries = 1\<rparr>)
   \<and> connectionRetries (snd (onConnectionClose (bot0\<lparr>connectionRetries := 3\<rparr>) (boomDisconnect 428))) = 4"
proof -
  have "onConnectionClose bot0 (boomDisconnect 401) =
       (Reconnect 2000, \<lparr>isConnected = False, connectionRetries = 1\<rparr>)"
    by (simp add: onConnectionClose_eq bot0_def delayTime_def)
  then show ?thesis
    using statusCode_always_undefined [of "boomDisconnect 401" bot0]
      statusCode_always_undefined [of "boomDisconnect 428" "bot0\<lparr>connectionRetries := 3\<rparr>"]
    by (simp add: MAX_RETRIES_def)
qed

lemma delays_closeEvents:
  "delays (closeEvents b lds) =
     take (length lds) (map delayTime [Suc (connectionRetries b)..<6])"
proof (induction lds arbitrary: b)
  case Nil
  show ?case by simp
next
  case (Cons ld lds)
  show ?case
  proof (cases "connectionRetries b < 5")
    case True
    then have u: "[Suc (connectionRetries b)..<6] =
        Suc (connectionRetries b) # [Suc (Suc (connectionRetries b))..<6]"
      by (simp add: upt_conv_Cons)
    show ?thesis
      using True by (simp add: onConnectionClose_eq Cons.IH u)
  next
    case False
    then show ?thesis
      by (simp add: onConnectionClose_eq Cons.IH)
  qed
qed

text \<open>
  C6.  The reconnect loop: a close event below the maximum raises the retry counter to
  \<open>n\<close> and reconnects after \<open>min (1000 * 2 ^ n) 30000\<close> milliseconds; at the maximum of 5
  it gives up.  So the delays of any run of close events, counted from a fresh counter, are
  the first ones of 2000, 4000, 8000, 16000, 30000, and there are at most 5 of them.
\<close>

theorem reconnect_backoff:
  "onConnectionClose b ld =
     (if connectionRetries b < 5 then
        (Reconnect (min (1000 * 2 ^ (connectionRetries b + 1)) 30000),
         b\<lparr>isConnected := False, connectionRetries := connectionRetries b + 1\<rparr>)
      else (MaxRetriesReached, b\<lparr>isConnected := False\<rparr>))
   \<and> delays (closeEvents (b\<lparr>connectionRetries := 0\<rparr>) lds) =
       take (length lds) [2000, 4000, 8000, 16000, 30000]
   \<and> length (delays (closeEvents b lds)) \<le> 5"
proof -
  have m: "map delayTime [Suc 0..<6] = [2000, 4000, 8000, 16000, 30000]"
    by (simp add: delayTime_def upt_conv_Cons)
  have l: "length (delays (closeEvents b lds)) \<le> 5"
    by (simp add: delays_closeEvents)
  show ?thesis
    using l by (simp add: onConnectionClose_eq delays_closeEvents m delayTime_def)
qed

theorem reconnect_backoff_witness:
  "delays (closeEvents bot0 (replicate 7 (boomDisconnect 500))) = [2000, 4000, 8000, 16000, 30000]
   \<and> onConnectionClose (bot0\<lparr>connectionRetries := 4\<rparr>) JUndefined =
       (Reconnect 30000, \<lparr>isConnected = False, connectionRetries = 5\<rparr>)
   \<and> fst (onConnectionClose (bot0\<lparr>connectionRetries := 5\<rparr>) JUndefined) = MaxRetriesReached"
  using reconnect_backoff [of "bot0\<lparr>connectionRetries := 4\<rparr>" JUndefined "replicate 7 (boomDisconnect 500)"]
    reconnect_backoff [of "bot0\<lparr>connectionRetries := 5\<rparr>" JUndefined "replicate 7 (boomDisconnect 500)"]
    reconnect_backoff [of bot0 JUndefined "replicate 7 (boomDisconnect 500)"]
  by (simp add: bot0_def)

section \<open>Properties of the natural-time parser\<close>

lemma inStep_same: "sameMessage v w \<Longrightarrow> sameMessage (inStep n m v) (inStep n' m w)"
  by (auto simp: sameMessage_def inStep_def Let_def split: option.splits prod.splits)

lemma tomorrowStep_same:
  "sameMessage v w \<Longrightarrow> sameMessage (tomorrowStep n m v) (tomorrowStep n' m w)"
  by (auto simp: sameMessage_def tomorrowStep_def split: option.splits prod.splits)

lemma dailyStep_same:
  "sameMessage v w \<Longrightarrow> sameMessage (dailyStep n l m v) (dailyStep n' l' m w)"
  by (auto simp: sameMessage_def dailyStep_def split: option.splits prod.splits)

lemma timeStep_same:
  "sameMessage v w \<Longrightarrow> sameMessage (timeStep n l m v) (timeStep n' l' m w)"
  by (auto simp: sameMessage_def timeStep_def split: option.splits prod.splits)

lemma defaultStep_same:
  "sameMessage v w \<Longrightarrow> sameMessage (defaultStep n m v) (defaultStep n' m w)"
  by (auto simp: sameMessage_def defaultStep_def)

text \<open>
  C1.  The claim that the result depends on the text alone fails: the due time is computed
  from the clock.  What holds is that the cleaned message depends on the text alone; two
  calls with the same text return the same message whenever they are made.
\<close>

theorem message_independent_of_clock:
  "map_option message (parseNaturalTime now later text) =
   map_option message (parseNaturalTime now' later' text)"
proof -
  let ?m = "strippedMessage text"
  have "sameMessage (None, ?m) (None, ?m)" by (simp add: sameMessage_def)
  then have "sameMessage
      (defaultStep now ?m (timeStep now later ?m (dailyStep now later ?m
         (tomorrowStep now ?m (inStep now ?m (None, ?m))))))
      (defaultStep now' ?m (timeStep now' later' ?m (dailyStep now' later' ?m
         (tomorrowStep now' ?m (inStep now' ?m (None, ?m))))))"
    by (intro defaultStep_same timeStep_same dailyStep_same tomorrowStep_same inStep_same)
  then show ?thesis
    by (simp add: parseNaturalTime_def Let_def sameMessage_def)
qed

theorem message_independent_of_clock_witness:
  "map_option message (parseNaturalTime 0 0 ''remind me in 2 hours to call mom'') =
   map_option message (parseNaturalTime 60000 60001 ''remind me in 2 hours to call mom'')"
  using message_independent_of_clock [of 0 0 "''remind me in 2 hours to call mom''" 60000 60001]
  by simp

text \<open>The same text, parsed a minute later, gives another result.\<close>

theorem parseNaturalTime_not_pure_counterexample:
  "parseNaturalTime 0 0 ''call mom'' \<noteq> parseNaturalTime 60000 60000 ''call mom''"
  by code_simp

lemma defaultStep_set: "fst (defaultStep n m v) \<noteq> None"
  by (simp add: defaultStep_def)

lemma parseNaturalTime_Some:
  "parseNaturalTime now later text =
     Some \<lparr>dueAt = fst (defaultStep now (strippedMessage text)
                (timeStep now later (strippedMessage text)
                  (dailyStep now later (strippedMessage text)
                    (tomorrowStep now (strippedMessage text)
                      (inStep now (strippedMessage text) (None, strippedMessage text)))))),
           message = (let c = snd (defaultStep now (strippedMessage text)
                (timeStep now later (strippedMessage text)
                  (dailyStep now later (strippedMessage text)
                    (tomorrowStep now (strippedMessage text)
                      (inStep now (strippedMessage text) (None, strippedMessage text))))))
                      in if c = [] then ''Reminder'' else c)\<rparr>"
  by (simp add: parseNaturalTime_def Let_def)

lemma no_pattern_default:
  assumes "searchFrom inAt m = None" "searchFrom tomorrowAt m = None"
    "searchFrom dailyAt m = None" "searchFrom timeAt m = None"
  shows "defaultStep now m (timeStep now later m (dailyStep now later m
           (tomorrowStep now m (inStep now m (None, m))))) = (Some (now + 3600000), m)"
  using assms
  by (simp add: inStep_def tomorrowStep_def dailyStep_def timeStep_def defaultStep_def plusHours_def)

lemma handleAddReminder_understands:
  "CouldNotUnderstandTime \<notin> snd ` set (handleAddReminder svc now later j sender text)"
  by (auto simp: handleAddReminder_def Let_def parseNaturalTime_Some split: sum.splits)

lemma handleNaturalReminder_understands:
  "CouldNotUnderstandNatural \<notin> snd ` set (handleNaturalReminder svc now later j sender text)"
  by (auto simp: handleNaturalReminder_def parseNaturalTime_Some split: sum.splits)

text \<open>
  C2.  \<open>parseNaturalTime\<close> returns an object for every text and every clock, with a due
  time that is not \<open>null\<close> and a message that is not empty.  When none of the four
  patterns matches, the due time is one hour after the current time and the message is the
  stripped text, or \<open>Reminder\<close> when that is empty.  So \<open>handleAddReminder\<close> and
  \<open>handleNaturalReminder\<close> never send their could-not-understand replies.
\<close>

theorem parseNaturalTime_total:
  "(\<exists>p. parseNaturalTime now later text = Some p \<and> dueAt p \<noteq> None \<and> message p \<noteq> []
        \<and> (searchFrom inAt (strippedMessage text) = None \<and>
            searchFrom tomorrowAt (strippedMessage text) = None \<and>
            searchFrom dailyAt (strippedMessage text) = None \<and>
            searchFrom timeAt (strippedMessage text) = None \<longrightarrow>
              dueAt p = Some (now + 3600000) \<and>
              message p = (if strippedMessage text = [] then ''Reminder'' else strippedMessage text)))
   \<and> CouldNotUnderstandTime \<notin> snd ` set (handleAddReminder svc now later j sender cmd)
   \<and> CouldNotUnderstandNatural \<notin> snd ` set (handleNaturalReminder svc now later j sender cmd)"
proof (intro conjI)
  let ?m = "strippedMessage text"
  let ?v = "defaultStep now ?m (timeStep now later ?m (dailyStep now later ?m
           (tomorrowStep now ?m (inStep now ?m (None, ?m)))))"
  let ?p = "\<lparr>dueAt = fst ?v, message = (let c = snd ?v in if c = [] then ''Reminder'' else c)\<rparr>"
  have a: "parseNaturalTime now later text = Some ?p"
    by (rule parseNaturalTime_Some)
  have b: "dueAt ?p \<noteq> None"
    using defaultStep_set by simp
  have c: "message ?p \<noteq> []"
    by (simp add: Let_def)
  have d: "searchFrom inAt ?m = None \<and> searchFrom tomorrowAt ?m = None \<and>
            searchFrom dailyAt ?m = None \<and> searchFrom timeAt ?m = None \<longrightarrow>
              dueAt ?p = Some (now + 3600000) \<and>
              message ?p = (if ?m = [] then ''Reminder'' else ?m)"
    by (simp add: no_pattern_default Let_def)
  show "\<exists>p. parseNaturalTime now later text = Some p \<and> dueAt p \<noteq> None \<and> message p \<noteq> []
        \<and> (searchFrom inAt ?m = None \<and> searchFrom tomorrowAt ?m = None \<and>
            searchFrom dailyAt ?m = None \<and> searchFrom timeAt ?m = None \<longrightarrow>
              dueAt p = Some (now + 3600000) \<and>
              message p = (if ?m = [] then ''Reminder'' else ?m))"
    by (rule exI [of _ ?p], intro conjI a b c d)
  show "CouldNotUnderstandTime \<notin> snd ` set (handleAddReminder svc now later j sender cmd)"
    by (rule handleAddReminder_understands)
  show "CouldNotUnderstandNatural \<notin> snd ` set (handleNaturalReminder svc now later j sender cmd)"
    by (rule handleNaturalReminder_understands)
qed

theorem parseNaturalTime_total_witness:
  "(\<exists>p. parseNaturalTime 0 0 ''call mom'' = Some p \<and> dueAt p = Some 3600000 \<and> message p = ''call mom'')
   \<and> CouldNotUnderstandTime \<notin> snd ` set (handleAddReminder svc0 0 0 ''a'' ''b'' ''!addreminder call mom'')"
proof -
  have n: "searchFrom inAt (strippedMessage ''call mom'') = None \<and>
           searchFrom tomorrowAt (strippedMessage ''call mom'') = None \<and>
           searchFrom dailyAt (strippedMessage ''call mom'') = None \<and>
           searchFrom timeAt (strippedMessage ''call mom'') = None"
    by code_simp
  have m: "strippedMessage ''call mom'' = ''call mom''"
    by code_simp
  from parseNaturalTime_total [of 0 0 "''call mom''" svc0 "''a''" "''b''" "''!addreminder call mom''"]
  obtain p where p: "parseNaturalTime 0 0 ''call mom'' = Some p"
    "searchFrom inAt (strippedMessage ''call mom'') = None \<and>
     searchFrom tomorrowAt (strippedMessage ''call mom'') = None \<and>
     searchFrom dailyAt (strippedMessage ''call mom'') = None \<and>
     searchFrom timeAt (strippedMessage ''call mom'') = None \<longrightarrow>
       dueAt p = Some (0 + 3600000) \<and>
       message p = (if strippedMessage ''call mom'' = [] then ''Reminder'' else strippedMessage ''call mom'')"
    and h: "CouldNotUnderstandTime \<notin> snd ` set (handleAddReminder svc0 0 0 ''a'' ''b'' ''!addreminder call mom'')"
    by (elim exE conjE)
  from mp [OF p(2) n] have "dueAt p = Some 3600000 \<and> message p = ''call mom''"
    unfolding m by simp
  with p(1) have "parseNaturalTime 0 0 ''call mom'' = Some p \<and> dueAt p = Some 3600000 \<and> message p = ''call mom''"
    by simp
  then have "\<exists>p. parseNaturalTime 0 0 ''call mom'' = Some p \<and> dueAt p = Some 3600000 \<and> message p = ''call mom''"
    by (intro exI)
  from this h show ?thesis by (rule conjI)
qed

subsection \<open>What a match is\<close>

lemma lit_Some: "lit p s = Some r \<Longrightarrow> \<exists>m. s = m @ r \<and> map lowerChar m = p"
proof (induction p arbitrary: s)
  case Nil
  then show ?case by simp
next
  case (Cons a p)
  obtain c cs where s: "s = c # cs" using Cons.prems by (cases s) simp_all
  with Cons.prems have e: "lowerChar c = a" and l: "lit p cs = Some r"
    by (simp_all split: if_splits)
  from Cons.IH [OF l] obtain m where m: "cs = m @ r" "map lowerChar m = p" by (elim exE conjE)
  have "s = (c # m) @ r \<and> map lowerChar (c # m) = a # p" using s e m by simp
  then show ?case by (rule exI [of _ "c # m"])
qed


lemma searchFrom_Some:
  "searchFrom m s = Some (pre, x) \<Longrightarrow> \<exists>t. s = pre @ t \<and> m t = Some x"
proof (induction s arbitrary: pre)
  case Nil
  then show ?case by (auto split: option.splits)
next
  case (Cons c cs)
  show ?case
  proof (cases "m (c # cs)")
    case (Some r)
    with Cons.prems show ?thesis by auto
  next
    case None
    with Cons.prems obtain pre' where s: "searchFrom m cs = Some (pre', x)" and p: "pre = c # pre'"
      by (auto split: option.splits)
    from Cons.IH [OF s] p show ?thesis by auto
  qed
qed



lemma unitTail_Some:
  "unitTail r = Some r' \<Longrightarrow>
     atBoundary r' \<and> (r = r' \<or> (\<exists>c. r = c # r' \<and> lowerChar c = CHR ''s''))"
  by (auto simp: unitTail_def split: list.splits if_splits option.splits)

lemma firstUnit_Some:
  "firstUnit us s = Some (u, r') \<Longrightarrow>
     u \<in> set us \<and> atBoundary r' \<and>
     (\<exists>un. s = un @ r' \<and> (map lowerChar un = u \<or> map lowerChar un = u @ ''s''))"
proof (induction us)
  case Nil
  then show ?case by simp
next
  case (Cons a us)
  show ?case
  proof (cases "case lit a s of Some r \<Rightarrow> unitTail r | None \<Rightarrow> None")
    case None
    with Cons.prems have "firstUnit us s = Some (u, r')" by simp
    from Cons.IH [OF this] show ?thesis by simp
  next
    case (Some q)
    with Cons.prems have u: "u = a" and q: "q = r'" by simp_all
    from Some obtain r where l: "lit a s = Some r" and t: "unitTail r = Some q"
      by (cases "lit a s") simp_all
    from lit_Some [OF l] obtain m where m: "s = m @ r" "map lowerChar m = a"
      by (elim exE conjE)
    from unitTail_Some [OF t] have b: "atBoundary q"
      and c: "r = q \<or> (\<exists>c. r = c # q \<and> lowerChar c = CHR ''s'')" by simp_all
    from c have "\<exists>un. s = un @ r' \<and> (map lowerChar un = u \<or> map lowerChar un = u @ ''s'')"
    proof
      assume "r = q"
      with m u q have "s = m @ r' \<and> (map lowerChar m = u \<or> map lowerChar m = u @ ''s'')"
        by simp
      then show ?thesis by (rule exI [of _ m])
    next
      assume "\<exists>c. r = c # q \<and> lowerChar c = CHR ''s''"
      then obtain c where c: "r = c # q" "lowerChar c = CHR ''s''" by (elim exE conjE)
      then have "s = (m @ [c]) @ r' \<and>
          (map lowerChar (m @ [c]) = u \<or> map lowerChar (m @ [c]) = u @ ''s'')"
        using m u q by simp
      then show ?thesis by (rule exI [of _ "m @ [c]"])
    qed
    with u q b show ?thesis by simp
  qed
qed

lemma inAt_Some:
  assumes "inAt s = Some (ds, u, rest)"
  shows "\<exists>kw ws1 ws2 un. s = kw @ ws1 @ ds @ ws2 @ un @ rest
           \<and> map lowerChar kw = ''in''
           \<and> ws1 \<noteq> [] \<and> (\<forall>c \<in> set ws1. isSpace c)
           \<and> ds \<noteq> [] \<and> (\<forall>c \<in> set ds. isDigit c)
           \<and> ws2 \<noteq> [] \<and> (\<forall>c \<in> set ws2. isSpace c)
           \<and> u \<in> set unitAlts
           \<and> (map lowerChar un = u \<or> map lowerChar un = u @ ''s'')
           \<and> atBoundary rest"
proof -
  from assms obtain r1 where l: "lit ''in'' s = Some r1"
    by (cases "lit ''in'' s") (simp_all add: inAt_def)
  let ?ws1 = "takeWhile isSpace r1"
  let ?r2 = "dropWhile isSpace r1"
  let ?r3 = "dropWhile isDigit ?r2"
  let ?ws2 = "takeWhile isSpace ?r3"
  let ?r4 = "dropWhile isSpace ?r3"
  from assms l have w1: "?ws1 \<noteq> []" and d: "ds = takeWhile isDigit ?r2" "ds \<noteq> []"
    and w2: "?ws2 \<noteq> []" and f: "firstUnit unitAlts ?r4 = Some (u, rest)"
    by (simp_all add: inAt_def Let_def split: option.splits if_splits)
  from lit_Some [OF l] obtain kw where kw: "s = kw @ r1" "map lowerChar kw = ''in''"
    by (elim exE conjE)
  from firstUnit_Some [OF f] obtain un where un: "u \<in> set unitAlts" "atBoundary rest"
      "?r4 = un @ rest" "map lowerChar un = u \<or> map lowerChar un = u @ ''s''"
    by (elim exE conjE)
  have "r1 = ?ws1 @ ?r2" by simp
  also have "?r2 = ds @ ?r3" using d by simp
  also have "?r3 = ?ws2 @ ?r4" by simp
  also note un(3)
  finally have e: "s = kw @ ?ws1 @ ds @ ?ws2 @ un @ rest"
    using kw(1) by simp
  have a: "\<forall>c \<in> set ?ws1. isSpace c" "\<forall>c \<in> set ?ws2. isSpace c" "\<forall>c \<in> set ds. isDigit c"
    using d by (auto dest: set_takeWhileD)
  have "s = kw @ ?ws1 @ ds @ ?ws2 @ un @ rest
           \<and> map lowerChar kw = ''in''
           \<and> ?ws1 \<noteq> [] \<and> (\<forall>c \<in> set ?ws1. isSpace c)
           \<and> ds \<noteq> [] \<and> (\<forall>c \<in> set ds. isDigit c)
           \<and> ?ws2 \<noteq> [] \<and> (\<forall>c \<in> set ?ws2. isSpace c)
           \<and> u \<in> set unitAlts
           \<and> (map lowerChar un = u \<or> map lowerChar un = u @ ''s'')
           \<and> atBoundary rest"
    by (intro conjI e kw(2) w1 a d(2) w2 un(1) un(4) un(2))
  then show ?thesis
    by (intro exI)
qed

text \<open>Every pattern needs a digit: a stripped message without digits takes the default.\<close>

lemma timeAt_digit: "timeAt s = Some x \<Longrightarrow> \<exists>c \<in> set s. isDigit c"
  by (cases s) (simp_all add: timeAt_def split: if_splits)

lemma lit_set: "lit p s = Some r \<Longrightarrow> set r \<subseteq> set s"
proof -
  assume "lit p s = Some r"
  from lit_Some [OF this] obtain m where "s = m @ r" by (elim exE conjE)
  then show ?thesis by simp
qed

lemma afterHead_digit:
  assumes "afterHead r = Some x"
  shows "\<exists>c \<in> set r. isDigit c"
proof -
  let ?r2 = "dropWhile isSpace r"
  have sub: "set ?r2 \<subseteq> set r" by (auto dest: set_dropWhileD)
  from assms have "(\<exists>r3. atGroup ?r2 = Some r3 \<and> timeAt r3 = Some x) \<or> timeAt ?r2 = Some x"
    by (auto simp: afterHead_def Let_def split: if_splits option.splits)
  then show ?thesis
  proof
    assume "\<exists>r3. atGroup ?r2 = Some r3 \<and> timeAt r3 = Some x"
    then obtain r3 where g: "atGroup ?r2 = Some r3" and t: "timeAt r3 = Some x"
      by (elim exE conjE)
    from g obtain q where q: "lit ''at'' ?r2 = Some q" "r3 = dropWhile isSpace q"
      by (auto simp: atGroup_def split: option.splits if_splits)
    have "set r3 \<subseteq> set q" using q(2) by (auto dest: set_dropWhileD)
    with lit_set [OF q(1)] sub have "set r3 \<subseteq> set r" by simp
    with timeAt_digit [OF t] show ?thesis by auto
  next
    assume "timeAt ?r2 = Some x"
    from timeAt_digit [OF this] sub show ?thesis by auto
  qed
qed

lemma tomorrowAt_digit: "tomorrowAt s = Some x \<Longrightarrow> \<exists>c \<in> set s. isDigit c"
proof -
  assume "tomorrowAt s = Some x"
  then obtain r1 where l: "lit ''tomorrow'' s = Some r1" and a: "afterHead r1 = Some x"
    by (auto simp: tomorrowAt_def split: option.splits)
  from afterHead_digit [OF a] lit_set [OF l] show ?thesis by auto
qed

lemma dailyAt_digit: "dailyAt s = Some x \<Longrightarrow> \<exists>c \<in> set s. isDigit c"
proof -
  assume d: "dailyAt s = Some x"
  then have "(\<exists>r1. lit ''daily'' s = Some r1 \<and> afterHead r1 = Some x) \<or>
      (\<exists>r1. everyDay s = Some r1 \<and> afterHead r1 = Some x)"
    by (auto simp: dailyAt_def split: option.splits)
  then show ?thesis
  proof
    assume "\<exists>r1. lit ''daily'' s = Some r1 \<and> afterHead r1 = Some x"
    then obtain r1 where l: "lit ''daily'' s = Some r1" and a: "afterHead r1 = Some x"
      by (elim exE conjE)
    from afterHead_digit [OF a] lit_set [OF l] show ?thesis by auto
  next
    assume "\<exists>r1. everyDay s = Some r1 \<and> afterHead r1 = Some x"
    then obtain r1 where e: "everyDay s = Some r1" and a: "afterHead r1 = Some x"
      by (elim exE conjE)
    from e obtain q where q: "lit ''every'' s = Some q" "lit ''day'' (dropWhile isSpace q) = Some r1"
      by (auto simp: everyDay_def split: option.splits if_splits)
    have "set (dropWhile isSpace q) \<subseteq> set q" by (auto dest: set_dropWhileD)
    with lit_set [OF q(2)] lit_set [OF q(1)] have "set r1 \<subseteq> set s" by blast
    with afterHead_digit [OF a] show ?thesis by auto
  qed
qed

lemma inAt_digit: "inAt s = Some x \<Longrightarrow> \<exists>c \<in> set s. isDigit c"
proof -
  assume a: "inAt s = Some x"
  obtain ds u rest where "x = (ds, u, rest)" by (cases x)
  with a have "inAt s = Some (ds, u, rest)" by simp
  from inAt_Some [OF this] obtain kw ws1 ws2 un where
    "s = kw @ ws1 @ ds @ ws2 @ un @ rest" "ds \<noteq> []" "\<forall>c \<in> set ds. isDigit c"
    by (elim exE conjE)
  then show ?thesis by (cases ds) auto
qed

lemma searchFrom_None:
  assumes "\<And>t x. m t = Some x \<Longrightarrow> \<exists>c \<in> set t. isDigit c" "\<forall>c \<in> set s. \<not> isDigit c"
  shows "searchFrom m s = None"
proof (cases "searchFrom m s")
  case None
  then show ?thesis .
next
  case (Some a)
  obtain pre x where "a = (pre, x)" by (cases a)
  with Some have "searchFrom m s = Some (pre, x)" by simp
  from searchFrom_Some [OF this] obtain t where t: "s = pre @ t" "m t = Some x"
    by (elim exE conjE)
  from assms(1) [OF t(2)] t(1) assms(2) show ?thesis by auto
qed

lemma no_digit_no_pattern:
  assumes "\<forall>c \<in> set m. \<not> isDigit c"
  shows "searchFrom inAt m = None \<and> searchFrom tomorrowAt m = None \<and>
         searchFrom dailyAt m = None \<and> searchFrom timeAt m = None"
proof (intro conjI)
  show "searchFrom inAt m = None"
    by (rule searchFrom_None [of inAt, OF _ assms]) (rule inAt_digit)
  show "searchFrom tomorrowAt m = None"
    by (rule searchFrom_None [of tomorrowAt, OF _ assms]) (rule tomorrowAt_digit)
  show "searchFrom dailyAt m = None"
    by (rule searchFrom_None [of dailyAt, OF _ assms]) (rule dailyAt_digit)
  show "searchFrom timeAt m = None"
    by (rule searchFrom_None [of timeAt, OF _ assms]) (rule timeAt_digit)
qed

subsection \<open>Pattern 1\<close>


















section \<open>Properties of the dispatcher\<close>

lemma route_table: "route t = firstMatch commandTable t"
  by (simp add: route_def commandTable_def Let_def)

lemma firstMatch_None: "firstMatch rules t = None \<longleftrightarrow> (\<forall>r \<in> set rules. \<not> fst r t)"
proof (induction rules)
  case Nil
  show ?case by simp
next
  case (Cons r rules)
  obtain test c where "r = (test, c)" by (cases r)
  with Cons show ?case by simp
qed

lemma firstMatch_Some:
  "firstMatch rules t = Some c \<Longrightarrow>
     \<exists>i < length rules. snd (rules ! i) = c \<and> fst (rules ! i) t \<and> (\<forall>k < i. \<not> fst (rules ! k) t)"
proof (induction rules)
  case Nil
  then show ?case by simp
next
  case (Cons r rules)
  obtain test c' where r: "r = (test, c')" by (cases r)
  show ?case
  proof (cases "test t")
    case True
    with Cons.prems r have "c' = c" by simp
    with True r have "snd ((r # rules) ! 0) = c \<and> fst ((r # rules) ! 0) t \<and>
        (\<forall>k < 0. \<not> fst ((r # rules) ! k) t)" by simp
    then show ?thesis by (intro exI [of _ 0]) simp
  next
    case False
    with Cons.prems r have "firstMatch rules t = Some c" by simp
    from Cons.IH [OF this] obtain i where i: "i < length rules" "snd (rules ! i) = c"
      "fst (rules ! i) t" "\<forall>k < i. \<not> fst (rules ! k) t" by (elim exE conjE)
    have "\<forall>k < Suc i. \<not> fst ((r # rules) ! k) t"
    proof (intro allI impI)
      fix k assume "k < Suc i"
      then show "\<not> fst ((r # rules) ! k) t"
        using False r i(4) by (cases k) simp_all
    qed
    with i have "Suc i < length (r # rules) \<and> snd ((r # rules) ! Suc i) = c \<and>
        fst ((r # rules) ! Suc i) t \<and> (\<forall>k < Suc i. \<not> fst ((r # rules) ! k) t)" by simp
    then show ?thesis by (intro exI [of _ "Suc i"])
  qed
qed

lemma handlers_reply:
  "fst (handleAdminsCommand s j a) \<noteq> []"
  "fst (handlePromoteCommand s j sd t a c) \<noteq> []"
  "fst (handleDemoteCommand s j sd t a c) \<noteq> []"
  "fst (handleBroadcastCommand s j sd t a) \<noteq> []"
  "handleAddReminder svc now later j sd t \<noteq> []"
  "handleMyReminders svc j sd \<noteq> []"
  "handleCancelReminder svc j sd t \<noteq> []"
  "handleNaturalReminder svc now later j sd t \<noteq> []"
  by (simp_all add: handleAdminsCommand_def handlePromoteCommand_def handleDemoteCommand_def
      handleBroadcastCommand_def handleAddReminder_def handleMyReminders_def
      handleCancelReminder_def handleNaturalReminder_def Let_def parseNaturalTime_Some
      split: prod.splits sum.splits)

lemma handleCommand_replies:
  "fst (handleCommand svc now later s p) = [] \<longleftrightarrow> route (p_text p) = None"
  by (simp add: handleCommand_def Let_def handlers_reply sendHelpMessage_def sendBotInfo_def
      sendCurrentTime_def split: prod.splits option.splits command.splits)

lemma handleCommand_table:
  "handleCommand svc now later s p =
     (case firstMatch commandTable (p_text p) of
        None \<Rightarrow> ([], snd (isAdmin s (Some (p_sender p))))
      | Some CmdPing \<Rightarrow> ([(p_jid p, Pong)], snd (isAdmin s (Some (p_sender p))))
      | Some CmdHelp \<Rightarrow>
          (sendHelpMessage (p_jid p) (fst (isAdmin s (Some (p_sender p)))) (p_isGroup p),
           snd (isAdmin s (Some (p_sender p))))
      | Some CmdInfo \<Rightarrow> (sendBotInfo (p_jid p), snd (isAdmin s (Some (p_sender p))))
      | Some CmdTime \<Rightarrow> (sendCurrentTime (p_jid p), snd (isAdmin s (Some (p_sender p))))
      | Some CmdAdmins \<Rightarrow>
          handleAdminsCommand (snd (isAdmin s (Some (p_sender p)))) (p_jid p)
            (fst (isAdmin s (Some (p_sender p))))
      | Some CmdPromote \<Rightarrow>
          handlePromoteCommand (snd (isAdmin s (Some (p_sender p)))) (p_jid p) (p_sender p) (p_text p)
            (fst (isAdmin s (Some (p_sender p)))) (isCreator (Some (p_sender p)))
      | Some CmdDemote \<Rightarrow>
          handleDemoteCommand (snd (isAdmin s (Some (p_sender p)))) (p_jid p) (p_sender p) (p_text p)
            (fst (isAdmin s (Some (p_sender p)))) (isCreator (Some (p_sender p)))
      | Some CmdBroadcast \<Rightarrow>
          handleBroadcastCommand (snd (isAdmin s (Some (p_sender p)))) (p_jid p) (p_sender p)
            (p_text p) (fst (isAdmin s (Some (p_sender p))))
      | Some CmdAddReminder \<Rightarrow>
          (handleAddReminder svc now later (p_jid p) (p_sender p) (p_text p),
           snd (isAdmin s (Some (p_sender p))))
      | Some CmdMyReminders \<Rightarrow>
          (handleMyReminders svc (p_jid p) (p_sender p), snd (isAdmin s (Some (p_sender p))))
      | Some CmdCancelReminder \<Rightarrow>
          (handleCancelReminder svc (p_jid p) (p_sender p) (p_text p),
           snd (isAdmin s (Some (p_sender p))))
      | Some CmdNaturalReminder \<Rightarrow>
          (handleNaturalReminder svc now later (p_jid p) (p_sender p) (p_text p),
           snd (isAdmin s (Some (p_sender p))))
      | Some CmdUnknown \<Rightarrow> ([(p_jid p, UnknownCommand)], snd (isAdmin s (Some (p_sender p)))))"
  by (simp add: handleCommand_def route_table Let_def
      split: prod.splits option.splits command.splits)

text \<open>
  C4.  The claim that every text gets a handler and a reply fails for a text that passes no
  test and does not begin with \<open>!\<close> or \<open>/\<close>.  What holds: the dispatcher runs the
  branch of the first test, in the fixed order of the table, that the text passes, and no
  other: what it sends and the state it leaves are those of the handler that the table
  names for that test (the pong for ping, the unknown-command reply for a text that passes
  only the last test, and so on); that branch sends at least one reply; and when the text
  passes no test, no branch runs and no reply is sent.
\<close>

theorem dispatch_first_match:
  "route t = firstMatch commandTable t
   \<and> (route t = None \<longleftrightarrow> (\<forall>r \<in> set commandTable. \<not> fst r t))
   \<and> (\<forall>c. route t = Some c \<longrightarrow>
         (\<exists>i < length commandTable. snd (commandTable ! i) = c \<and> fst (commandTable ! i) t \<and>
            (\<forall>k < i. \<not> fst (commandTable ! k) t)))
   \<and> (fst (handleCommand svc now later s p) = [] \<longleftrightarrow> route (p_text p) = None)
   \<and> handleCommand svc now later s p =
     (case firstMatch commandTable (p_text p) of
        None \<Rightarrow> ([], snd (isAdmin s (Some (p_sender p))))
      | Some CmdPing \<Rightarrow> ([(p_jid p, Pong)], snd (isAdmin s (Some (p_sender p))))
      | Some CmdHelp \<Rightarrow>
          (sendHelpMessage (p_jid p) (fst (isAdmin s (Some (p_sender p)))) (p_isGroup p),
           snd (isAdmin s (Some (p_sender p))))
      | Some CmdInfo \<Rightarrow> (sendBotInfo (p_jid p), snd (isAdmin s (Some (p_sender p))))
      | Some CmdTime \<Rightarrow> (sendCurrentTime (p_jid p), snd (isAdmin s (Some (p_sender p))))
      | Some CmdAdmins \<Rightarrow>
          handleAdminsCommand (snd (isAdmin s (Some (p_sender p)))) (p_jid p)
            (fst (isAdmin s (Some (p_sender p))))
      | Some CmdPromote \<Rightarrow>
          handlePromoteCommand (snd (isAdmin s (Some (p_sender p)))) (p_jid p) (p_sender p) (p_text p)
            (fst (isAdmin s (Some (p_sender p)))) (isCreator (Some (p_sender p)))
      | Some CmdDemote \<Rightarrow>
          handleDemoteCommand (snd (isAdmin s (Some (p_sender p)))) (p_jid p) (p_sender p) (p_text p)
            (fst (isAdmin s (Some (p_sender p)))) (isCreator (Some (p_sender p)))
      | Some CmdBroadcast \<Rightarrow>
          handleBroadcastCommand (snd (isAdmin s (Some (p_sender p)))) (p_jid p) (p_sender p)
            (p_text p) (fst (isAdmin s (Some (p_sender p))))
      | Some CmdAddReminder \<Rightarrow>
          (handleAddReminder svc now later (p_jid p) (p_sender p) (p_text p),
           snd (isAdmin s (Some (p_sender p))))
      | Some CmdMyReminders \<Rightarrow>
          (handleMyReminders svc (p_jid p) (p_sender p), snd (isAdmin s (Some (p_sender p))))
      | Some CmdCancelReminder \<Rightarrow>
          (handleCancelReminder svc (p_jid p) (p_sender p) (p_text p),
           snd (isAdmin s (Some (p_sender p))))
      | Some CmdNaturalReminder \<Rightarrow>
          (handleNaturalReminder svc now later (p_jid p) (p_sender p) (p_text p),
           snd (isAdmin s (Some (p_sender p))))
      | Some CmdUnknown \<Rightarrow> ([(p_jid p, UnknownCommand)], snd (isAdmin s (Some (p_sender p)))))"
proof (intro conjI allI impI)
  show "route t = firstMatch commandTable t" by (rule route_table)
  show "route t = None \<longleftrightarrow> (\<forall>r \<in> set commandTable. \<not> fst r t)"
    unfolding route_table by (rule firstMatch_None)
  show "fst (handleCommand svc now later s p) = [] \<longleftrightarrow> route (p_text p) = None"
    by (rule handleCommand_replies)
  show "handleCommand svc now later s p =
     (case firstMatch commandTable (p_text p) of
        None \<Rightarrow> ([], snd (isAdmin s (Some (p_sender p))))
      | Some CmdPing \<Rightarrow> ([(p_jid p, Pong)], snd (isAdmin s (Some (p_sender p))))
      | Some CmdHelp \<Rightarrow>
          (sendHelpMessage (p_jid p) (fst (isAdmin s (Some (p_sender p)))) (p_isGroup p),
           snd (isAdmin s (Some (p_sender p))))
      | Some CmdInfo \<Rightarrow> (sendBotInfo (p_jid p), snd (isAdmin s (Some (p_sender p))))
      | Some CmdTime \<Rightarrow> (sendCurrentTime (p_jid p), snd (isAdmin s (Some (p_sender p))))
      | Some CmdAdmins \<Rightarrow>
          handleAdminsCommand (snd (isAdmin s (Some (p_sender p)))) (p_jid p)
            (fst (isAdmin s (Some (p_sender p))))
      | Some CmdPromote \<Rightarrow>
          handlePromoteCommand (snd (isAdmin s (Some (p_sender p)))) (p_jid p) (p_sender p) (p_text p)
            (fst (isAdmin s (Some (p_sender p)))) (isCreator (Some (p_sender p)))
      | Some CmdDemote \<Rightarrow>
          handleDemoteCommand (snd (isAdmin s (Some (p_sender p)))) (p_jid p) (p_sender p) (p_text p)
            (fst (isAdmin s (Some (p_sender p)))) (isCreator (Some (p_sender p)))
      | Some CmdBroadcast \<Rightarrow>
          handleBroadcastCommand (snd (isAdmin s (Some (p_sender p)))) (p_jid p) (p_sender p)
            (p_text p) (fst (isAdmin s (Some (p_sender p))))
      | Some CmdAddReminder \<Rightarrow>
          (handleAddReminder svc now later (p_jid p) (p_sender p) (p_text p),
           snd (isAdmin s (Some (p_sender p))))
      | Some CmdMyReminders \<Rightarrow>
          (handleMyReminders svc (p_jid p) (p_sender p), snd (isAdmin s (Some (p_sender p))))
      | Some CmdCancelReminder \<Rightarrow>
          (handleCancelReminder svc (p_jid p) (p_sender p) (p_text p),
           snd (isAdmin s (Some (p_sender p))))
      | Some CmdNaturalReminder \<Rightarrow>
          (handleNaturalReminder svc now later (p_jid p) (p_sender p) (p_text p),
           snd (isAdmin s (Some (p_sender p))))
      | Some CmdUnknown \<Rightarrow> ([(p_jid p, UnknownCommand)], snd (isAdmin s (Some (p_sender p)))))"
    by (rule handleCommand_table)
next
  fix c assume "route t = Some c"
  then have "firstMatch commandTable t = Some c" by (simp add: route_table)
  then show "\<exists>i < length commandTable. snd (commandTable ! i) = c \<and> fst (commandTable ! i) t \<and>
            (\<forall>k < i. \<not> fst (commandTable ! k) t)"
    by (rule firstMatch_Some)
qed

theorem dispatch_first_match_witness:
  "route ''!Ping'' = Some CmdPing
   \<and> fst (handleCommand svc0 0 0 fs0 (params0 ''!Ping'')) \<noteq> []
   \<and> route ''Remind me tomorrow 9am'' = Some CmdNaturalReminder
   \<and> fst (handleCommand svc0 0 0 fs0 (params0 ''!Ping'')) = [(p_jid (params0 ''!Ping''), Pong)]
   \<and> fst (handleCommand svc0 0 0 fs0 (params0 ''/nosuch'')) =
       [(p_jid (params0 ''/nosuch''), UnknownCommand)]"
proof -
  have a: "route ''!Ping'' = Some CmdPing" by code_simp
  have b: "route ''Remind me tomorrow 9am'' = Some CmdNaturalReminder" by code_simp
  have p: "p_text (params0 ''!Ping'') = ''!Ping''" by (simp add: params0_def)
  have q: "p_text (params0 ''/nosuch'') = ''/nosuch''" by (simp add: params0_def)
  have fa: "firstMatch commandTable ''!Ping'' = Some CmdPing" by code_simp
  have fb: "firstMatch commandTable ''/nosuch'' = Some CmdUnknown" by code_simp
  note d1 = dispatch_first_match [of "''!Ping''" svc0 0 0 fs0 "params0 ''!Ping''"]
  note d2 = dispatch_first_match [of "''/nosuch''" svc0 0 0 fs0 "params0 ''/nosuch''"]
  from d1 have "fst (handleCommand svc0 0 0 fs0 (params0 ''!Ping'')) = [] \<longleftrightarrow>
      route (p_text (params0 ''!Ping'')) = None"
    by (elim conjE)
  then have c: "fst (handleCommand svc0 0 0 fs0 (params0 ''!Ping'')) \<noteq> []"
    unfolding p a by simp
  have e1: "handleCommand svc0 0 0 fs0 (params0 ''!Ping'') =
      ([(p_jid (params0 ''!Ping''), Pong)], snd (isAdmin fs0 (Some (p_sender (params0 ''!Ping'')))))"
    using conjunct2 [OF conjunct2 [OF conjunct2 [OF conjunct2 [OF d1]]]]
    unfolding p fa by simp
  have e2: "handleCommand svc0 0 0 fs0 (params0 ''/nosuch'') =
      ([(p_jid (params0 ''/nosuch''), UnknownCommand)],
       snd (isAdmin fs0 (Some (p_sender (params0 ''/nosuch'')))))"
    using conjunct2 [OF conjunct2 [OF conjunct2 [OF conjunct2 [OF d2]]]]
    unfolding q fb by simp
  from e1 have f1: "fst (handleCommand svc0 0 0 fs0 (params0 ''!Ping'')) =
      [(p_jid (params0 ''!Ping''), Pong)]" by simp
  from e2 have f2: "fst (handleCommand svc0 0 0 fs0 (params0 ''/nosuch'')) =
      [(p_jid (params0 ''/nosuch''), UnknownCommand)]" by simp
  from a c b f1 f2 show ?thesis by (intro conjI)
qed

text \<open>A greeting has non-empty trimmed text, runs no handler and gets no reply.\<close>

theorem dispatch_no_reply_counterexample:
  "trim ''hello'' \<noteq> [] \<and> route ''hello'' = None
   \<and> fst (handleCommand svc0 0 0 fs0 (params0 ''hello'')) = []"
  by code_simp

section \<open>Properties of the event loop\<close>

lemma handleEvent_tick: "handleEvent svc now later uid sys KeepAliveTick = ([], sys)"
  by (simp add: handleEvent_def)

lemma handleEvent_sources:
  "fst (handleEvent svc now later uid sys ev) \<noteq> [] \<Longrightarrow>
     (\<exists>m. ev = MessagesUpsert m \<and> up_type m = ''notify'') \<or>
     (\<exists>g. ev = GroupParticipantsUpdate g \<and> g_action g = ''add'') \<or>
     (\<exists>u. ev = ConnectionUpdate u \<and> u_connection u = Some ''open'')"
  by (cases ev)
    (auto simp: handleEvent_def handleConnectionUpdate_def handleMessagesUpsert_def
      handleGroupParticipantsUpdate_def split: prod.splits if_splits)

lemma runEvents_ticks:
  "\<forall>e \<in> set evs. snd e = KeepAliveTick \<Longrightarrow> runEvents svc uid sys evs = []"
proof (induction evs)
  case Nil
  show ?case by simp
next
  case (Cons e evs)
  obtain now ev where e: "e = (now, ev)" by (cases e)
  with Cons.prems have "ev = KeepAliveTick" by simp
  with e Cons show ?case by (simp add: handleEvent_tick)
qed


text \<open>
  C9.  No step of the system delivers a stored reminder when it falls due.  The tick of the
  keep-alive timer sends nothing and changes nothing, at whatever time and whatever the
  reminder service holds; a step that sends a message is the handling of a message upsert,
  of a group-participants update or of a connection that opens; so a run in which only the
  timer fires sends no message.
\<close>

theorem no_proactive_delivery:
  "handleEvent svc now later uid sys KeepAliveTick = ([], sys)
   \<and> (fst (handleEvent svc now later uid sys ev) \<noteq> [] \<longrightarrow>
        (\<exists>m. ev = MessagesUpsert m) \<or> (\<exists>g. ev = GroupParticipantsUpdate g) \<or>
        (\<exists>u. ev = ConnectionUpdate u \<and> u_connection u = Some ''open''))
   \<and> ((\<forall>e \<in> set evs. snd e = KeepAliveTick) \<longrightarrow> runEvents svc uid sys evs = [])"
proof (intro conjI impI)
  show "handleEvent svc now later uid sys KeepAliveTick = ([], sys)"
    by (rule handleEvent_tick)
next
  assume "fst (handleEvent svc now later uid sys ev) \<noteq> []"
  from handleEvent_sources [OF this]
  show "(\<exists>m. ev = MessagesUpsert m) \<or> (\<exists>g. ev = GroupParticipantsUpdate g) \<or>
        (\<exists>u. ev = ConnectionUpdate u \<and> u_connection u = Some ''open'')"
    by (elim disjE exE conjE) simp_all
next
  assume "\<forall>e \<in> set evs. snd e = KeepAliveTick"
  then show "runEvents svc uid sys evs = []" by (rule runEvents_ticks)
qed

theorem no_proactive_delivery_witness:
  "runEvents svc1 ''8801000000000:1@s.whatsapp.net'' sys0
     [(- 1000, KeepAliveTick), (0, KeepAliveTick), (86400000, KeepAliveTick)] = []
   \<and> fst (handleEvent svc1 0 0 ''8801000000000:1@s.whatsapp.net'' sys0 (MessagesUpsert upsert0)) \<noteq> []"
proof -
  have t: "\<forall>e \<in> set [(- 1000 :: int, KeepAliveTick), (0, KeepAliveTick), (86400000, KeepAliveTick)].
      snd e = KeepAliveTick" by simp
  note n = no_proactive_delivery [of svc1 0 0 "''8801000000000:1@s.whatsapp.net''" sys0
      "MessagesUpsert upsert0"
      "[(- 1000, KeepAliveTick), (0, KeepAliveTick), (86400000, KeepAliveTick)]"]
  have a: "runEvents svc1 ''8801000000000:1@s.whatsapp.net'' sys0
     [(- 1000, KeepAliveTick), (0, KeepAliveTick), (86400000, KeepAliveTick)] = []"
    by (rule mp [OF conjunct2 [OF conjunct2 [OF n]] t])
  have b: "fst (handleEvent svc1 0 0 ''8801000000000:1@s.whatsapp.net'' sys0 (MessagesUpsert upsert0)) \<noteq> []"
    by code_simp
  from a b show ?thesis by (rule conjI)
qed

end
